theory Spec2Isabelle
  imports Main "HOL-Library.Multiset" "HOL-Library.Sublist"
begin

section \<open>Paths, nodes and the file system\<close>

text \<open>
  A \<open>pathlib.Path\<close> is an absolute, normalised list of components; the root is \<open>[]\<close>.
  The file system is an association list from the physical location of a directory entry
  to its node: a regular file with its bytes, a directory, or a symbolic link with its
  recorded target.  A recorded target is absolute, or relative: \<open>Rel u cs\<close> goes up \<open>u\<close>
  directories and then down \<open>cs\<close>.  The root directory always exists.
\<close>

type_synonym path = "string list"

datatype link_target = Abs path | Rel nat path

datatype node = File string | Dir | Symlink link_target

type_synonym fsys = "(path \<times> node) list"

datatype exn =
    OSError string
  | PermissionError string
  | FileNotFoundError string
  | FileExistsError string
  | ShutilError string
  | ValueError string
  | RuntimeError string
  | OtherException string

definition node_at :: "fsys \<Rightarrow> path \<Rightarrow> node option" where
  "node_at fs p = (if p = [] then Some Dir else map_of fs p)"

text \<open>
  Path resolution the way the kernel does it: component by component, replacing a
  symbolic link by its target, and giving up after 40 links (\<open>ELOOP\<close>).  \<open>walk n fs pre cs\<close>
  has already resolved \<open>pre\<close> to a directory and still has to look up \<open>cs\<close> below it; a
  relative target starts from the directory that holds the link.
\<close>

definition from_dir :: "path \<Rightarrow> link_target \<Rightarrow> path" where
  "from_dir d t = (case t of Abs p \<Rightarrow> p | Rel u cs \<Rightarrow> take (length d - u) d @ cs)"


fun walk :: "nat \<Rightarrow> fsys \<Rightarrow> path \<Rightarrow> path \<Rightarrow> path option" where
  "walk n fs pre [] = Some pre"
| "walk n fs pre (c # cs) =
     (case map_of fs (pre @ [c]) of
        None \<Rightarrow> None
      | Some Dir \<Rightarrow> walk n fs (pre @ [c]) cs
      | Some (File b) \<Rightarrow> (if cs = [] then Some (pre @ [c]) else None)
      | Some (Symlink t) \<Rightarrow>
          (case n of
             0 \<Rightarrow> None
           | Suc m \<Rightarrow>
               (case t of
                  Abs tp \<Rightarrow> walk m fs [] (tp @ cs)
                | Rel u tp \<Rightarrow> walk m fs (take (length pre - u) pre) (tp @ cs))))"

definition realpath :: "fsys \<Rightarrow> path \<Rightarrow> path option" where
  "realpath fs p = walk 40 fs [] p"

text \<open>\<open>stat\<close> follows links; \<open>lstat\<close> looks at the directory entry itself.\<close>

definition stat :: "fsys \<Rightarrow> path \<Rightarrow> node option" where
  "stat fs p = (case realpath fs p of None \<Rightarrow> None | Some q \<Rightarrow> node_at fs q)"

definition lpath :: "fsys \<Rightarrow> path \<Rightarrow> path option" where
  "lpath fs p =
     (if p = [] then Some []
      else (case realpath fs (butlast p) of
              None \<Rightarrow> None
            | Some q \<Rightarrow> (if node_at fs q = Some Dir then Some (q @ [last p]) else None)))"

definition lstat :: "fsys \<Rightarrow> path \<Rightarrow> node option" where
  "lstat fs p = (case lpath fs p of None \<Rightarrow> None | Some q \<Rightarrow> node_at fs q)"

definition path_exists :: "fsys \<Rightarrow> path \<Rightarrow> bool" where
  "path_exists fs p = (stat fs p \<noteq> None)"

definition path_is_file :: "fsys \<Rightarrow> path \<Rightarrow> bool" where
  "path_is_file fs p = (case stat fs p of Some (File b) \<Rightarrow> True | _ \<Rightarrow> False)"

definition path_is_dir :: "fsys \<Rightarrow> path \<Rightarrow> bool" where
  "path_is_dir fs p = (case stat fs p of Some Dir \<Rightarrow> True | _ \<Rightarrow> False)"

definition path_is_symlink :: "fsys \<Rightarrow> path \<Rightarrow> bool" where
  "path_is_symlink fs p = (case lstat fs p of Some (Symlink t) \<Rightarrow> True | _ \<Rightarrow> False)"

definition readlink :: "fsys \<Rightarrow> path \<Rightarrow> exn + link_target" where
  "readlink fs p =
     (case lstat fs p of
        Some (Symlink t) \<Rightarrow> Inr t
      | Some _ \<Rightarrow> Inl (OSError ''Invalid argument'')
      | None \<Rightarrow> Inl (FileNotFoundError ''readlink''))"

text \<open>The size \<open>stat().st_size\<close> reports: the number of bytes of a regular file.  What a
  directory reports depends on the platform and on its entries; the model leaves it
  open, as some function of the file system and the path.\<close>

definition dir_st_size :: "fsys \<Rightarrow> path \<Rightarrow> nat" where
  "dir_st_size = (SOME f. True)"

definition st_size :: "fsys \<Rightarrow> path \<Rightarrow> exn + nat" where
  "st_size fs p =
     (case stat fs p of
        Some (File b) \<Rightarrow> Inr (length b)
      | Some _ \<Rightarrow> Inr (dir_st_size fs p)
      | None \<Rightarrow> Inl (FileNotFoundError ''stat''))"

definition path_name :: "path \<Rightarrow> string" where
  "path_name p = (if p = [] then [] else last p)"

definition path_parent :: "path \<Rightarrow> path" where
  "path_parent p = butlast p"

text \<open>
  \<open>Path.rglob('*')\<close>: everything below the directory the path resolves to, not descending
  into linked directories, reported under the path as it was given.
\<close>

definition below :: "fsys \<Rightarrow> path \<Rightarrow> path \<Rightarrow> bool" where
  "below fs d q =
     (strict_prefix d q \<and>
      list_all (\<lambda>k. map_of fs (take k q) = Some Dir) [Suc (length d) ..< length q])"

definition rglob :: "fsys \<Rightarrow> path \<Rightarrow> path list" where
  "rglob fs p =
     (case realpath fs p of
        None \<Rightarrow> []
      | Some d \<Rightarrow>
          (if node_at fs d = Some Dir
           then map (\<lambda>(q, n). p @ drop (length d) q) (filter (\<lambda>(q, n). below fs d q) fs)
           else []))"


section \<open>Library calls that change the file system\<close>

text \<open>
  The calls of \<open>os\<close>, \<open>pathlib\<close> and \<open>shutil\<close> the program makes, with the errors they raise.
\<close>

definition remove_entry :: "fsys \<Rightarrow> path \<Rightarrow> fsys" where
  "remove_entry fs q = filter (\<lambda>(k, n). k \<noteq> q) fs"

definition put_entry :: "fsys \<Rightarrow> path \<Rightarrow> node \<Rightarrow> fsys" where
  "put_entry fs q n = remove_entry fs q @ [(q, n)]"

definition unlink :: "fsys \<Rightarrow> path \<Rightarrow> exn + fsys" where
  "unlink fs p =
     (case lpath fs p of
        None \<Rightarrow> Inl (FileNotFoundError ''unlink'')
      | Some q \<Rightarrow>
          (case node_at fs q of
             None \<Rightarrow> Inl (FileNotFoundError ''unlink'')
           | Some Dir \<Rightarrow> Inl (PermissionError ''unlink: is a directory'')
           | Some _ \<Rightarrow> Inr (remove_entry fs q)))"

definition rmtree :: "fsys \<Rightarrow> path \<Rightarrow> exn + fsys" where
  "rmtree fs p =
     (case lpath fs p of
        None \<Rightarrow> Inl (FileNotFoundError ''rmtree'')
      | Some q \<Rightarrow>
          (case node_at fs q of
             None \<Rightarrow> Inl (FileNotFoundError ''rmtree'')
           | Some (Symlink t) \<Rightarrow> Inl (OSError ''Cannot call rmtree on a symbolic link'')
           | Some (File b) \<Rightarrow> Inl (OSError ''rmtree: not a directory'')
           | Some Dir \<Rightarrow> Inr (filter (\<lambda>(k, n). \<not> prefix q k) fs)))"

text \<open>Where \<open>open(p, 'wb')\<close> writes: the file the path resolves to, or a new entry.\<close>

fun wtarget :: "nat \<Rightarrow> fsys \<Rightarrow> path \<Rightarrow> path option" where
  "wtarget n fs p =
     (case lpath fs p of
        None \<Rightarrow> None
      | Some q \<Rightarrow>
          (case node_at fs q of
             None \<Rightarrow> Some q
           | Some (File b) \<Rightarrow> Some q
           | Some Dir \<Rightarrow> None
           | Some (Symlink t) \<Rightarrow>
               (case n of 0 \<Rightarrow> None | Suc m \<Rightarrow> wtarget m fs (from_dir (butlast q) t))))"

definition write_file :: "fsys \<Rightarrow> path \<Rightarrow> string \<Rightarrow> exn + fsys" where
  "write_file fs p b =
     (case wtarget 40 fs p of
        None \<Rightarrow> Inl (OSError ''open for writing'')
      | Some q \<Rightarrow> Inr (put_entry fs q (File b)))"

definition read_file :: "fsys \<Rightarrow> path \<Rightarrow> exn + string" where
  "read_file fs p =
     (case stat fs p of
        Some (File b) \<Rightarrow> Inr b
      | Some _ \<Rightarrow> Inl (OSError ''open: is a directory'')
      | None \<Rightarrow> Inl (FileNotFoundError ''open''))"

definition symlink_to :: "fsys \<Rightarrow> path \<Rightarrow> link_target \<Rightarrow> exn + fsys" where
  "symlink_to fs p target =
     (case lpath fs p of
        None \<Rightarrow> Inl (FileNotFoundError ''symlink'')
      | Some q \<Rightarrow>
          (if node_at fs q \<noteq> None then Inl (FileExistsError ''symlink'')
           else Inr (fs @ [(q, Symlink target)])))"

text \<open>\<open>Path.mkdir(exist_ok=True)\<close> and \<open>Path.mkdir(parents=True, exist_ok=True)\<close>.\<close>

definition mkdir :: "fsys \<Rightarrow> path \<Rightarrow> exn + fsys" where
  "mkdir fs p =
     (case lpath fs p of
        None \<Rightarrow> Inl (FileNotFoundError ''mkdir'')
      | Some q \<Rightarrow>
          (case node_at fs q of
             None \<Rightarrow> Inr (fs @ [(q, Dir)])
           | Some _ \<Rightarrow> (if path_is_dir fs p then Inr fs else Inl (FileExistsError ''mkdir''))))"

definition mkdir_parents :: "fsys \<Rightarrow> path \<Rightarrow> exn + fsys" where
  "mkdir_parents fs p =
     fold (\<lambda>k r. case r of Inl e \<Rightarrow> Inl e | Inr f \<Rightarrow> mkdir f (take k p))
       [1 ..< Suc (length p)] (Inr fs)"

text \<open>\<open>os.rename\<close> on the physical locations of two directory entries.\<close>

definition rename_entry :: "fsys \<Rightarrow> path \<Rightarrow> path \<Rightarrow> exn + fsys" where
  "rename_entry fs s d =
     (let moved = map (\<lambda>(k, n). if prefix s k then (d @ drop (length s) k, n) else (k, n))
                    (filter (\<lambda>(k, n). k \<noteq> d) fs)
      in case node_at fs s of
           None \<Rightarrow> Inl (FileNotFoundError ''rename'')
         | Some sn \<Rightarrow>
             (if s = [] then Inl (OSError ''rename: busy'')
              else if s = d then Inr fs
              else if prefix s d then Inl (OSError ''rename: invalid argument'')
              else (case node_at fs d of
                      None \<Rightarrow> Inr moved
                    | Some Dir \<Rightarrow>
                        (if sn = Dir \<and> \<not> list_ex (\<lambda>(k, n). strict_prefix d k) fs
                         then Inr moved
                         else Inl (OSError ''rename: directory not empty''))
                    | Some _ \<Rightarrow>
                        (if sn = Dir then Inl (OSError ''rename: not a directory'')
                         else Inr moved))))"

text \<open>
  \<open>shutil.move(src, dst)\<close>: into \<open>dst\<close> when that is a directory, refusing an existing entry
  of the same name there; otherwise a rename.  Where the rename fails, \<open>shutil.move\<close> falls
  back to copying.  The fall-back succeeds where the rename failed in one case: a real
  directory whose destination has no parent yet is copied with \<open>copytree(symlinks=True)\<close>,
  which makes the missing directories and keeps every link as a link, and is then
  removed; the result is the rename below the new parents.  Everywhere else the
  fall-back fails as the rename did.
\<close>

definition move_by_copy :: "fsys \<Rightarrow> path \<Rightarrow> path \<Rightarrow> exn + fsys" where
  "move_by_copy fs src real_dst =
     (if lstat fs src = Some Dir
      then (case mkdir_parents fs (path_parent real_dst) of
              Inl e \<Rightarrow> Inl e
            | Inr fs1 \<Rightarrow>
                (case (lpath fs1 src, lpath fs1 real_dst) of
                   (Some s, Some d) \<Rightarrow> rename_entry fs1 s d
                 | _ \<Rightarrow> Inl (FileNotFoundError ''move'')))
      else Inl (FileNotFoundError ''move''))"

definition shutil_move :: "fsys \<Rightarrow> path \<Rightarrow> path \<Rightarrow> exn + fsys" where
  "shutil_move fs src dst =
     (if path_is_dir fs dst \<and> realpath fs src = realpath fs dst \<and> \<not> path_is_symlink fs src
      then (case (lpath fs src, lpath fs dst) of
              (Some s, Some d) \<Rightarrow> rename_entry fs s d
            | _ \<Rightarrow> Inl (FileNotFoundError ''move''))
      else
        (let real_dst = (if path_is_dir fs dst then dst @ [path_name src] else dst)
         in if path_is_dir fs dst \<and> path_exists fs real_dst
            then Inl (ShutilError ''Destination path already exists'')
            else (case (lpath fs src, lpath fs real_dst) of
                    (Some s, Some d) \<Rightarrow> rename_entry fs s d
                  | (Some s, None) \<Rightarrow> move_by_copy fs src real_dst
                  | _ \<Rightarrow> Inl (FileNotFoundError ''move''))))"

text \<open>
  \<open>shutil.copytree(src, dst, dirs_exist_ok=True)\<close>.  Links inside the tree are followed
  (\<open>symlinks=False\<close>): a link to a file is copied as that file, a link to a directory as
  that directory's tree, a dangling link is an error.  Errors of the entries are collected
  and raised at the end, so what could be copied stays at the destination.  The recursion
  through linked directories is bounded by the fuel, as the interpreter's stack bounds it.
\<close>

fun copy_nodes :: "nat \<Rightarrow> fsys \<Rightarrow> path \<Rightarrow> path \<Rightarrow> (bool \<times> fsys)" where
  "copy_nodes k fs d dst =
     (if k = 0 then (False, [])
      else
      (let parts = map (\<lambda>(q, n).
            (case n of
               File b \<Rightarrow> (True, [(dst @ drop (length d) q, File b)])
             | Dir \<Rightarrow> (True, [(dst @ drop (length d) q, Dir)])
             | Symlink t \<Rightarrow>
                 (case stat fs q of
                    None \<Rightarrow> (False, [])
                  | Some (File b) \<Rightarrow> (True, [(dst @ drop (length d) q, File b)])
                  | Some _ \<Rightarrow>
                      (case realpath fs q of
                         None \<Rightarrow> (False, [])
                       | Some d' \<Rightarrow>
                           (let r = copy_nodes (k - 1) fs d' (dst @ drop (length d) q)
                            in (fst r, (dst @ drop (length d) q, Dir) # snd r))))))
          (filter (\<lambda>(q, n). below fs d q) fs)
       in (list_all fst parts, concat (map snd parts))))"

declare copy_nodes.simps [simp del]

definition copytree :: "fsys \<Rightarrow> path \<Rightarrow> path \<Rightarrow> exn option \<times> fsys" where
  "copytree fs src dst =
     (if \<not> path_is_dir fs src then (Some (FileNotFoundError ''copytree''), fs)
      else (case mkdir_parents fs dst of
              Inl e \<Rightarrow> (Some e, fs)
            | Inr fs1 \<Rightarrow>
                (case (realpath fs1 src, realpath fs1 dst) of
                   (Some d, Some t) \<Rightarrow>
                     (let r = copy_nodes 1000 fs1 d t;
                          fs2 = fold (\<lambda>(q, n) f. put_entry f q n) (snd r) fs1
                      in (if fst r then None else Some (ShutilError ''copytree''), fs2))
                 | _ \<Rightarrow> (Some (FileNotFoundError ''copytree''), fs1))))"


section \<open>The world outside the program\<close>

text \<open>
  What the program reads from its environment: the file system, the platform, the mount
  table, the free space of a volume, the process id and the clock, and the working
  directory (a physical directory, against which a relative path is resolved).
  Faults of the device can be injected at the I/O calls of the mount probe:
  \<open>io_fault\<close> makes the call raise, \<open>garbled\<close> makes the probe read back other bytes than
  it wrote.  \<open>monitor_flag\<close> is what the availability monitor has reported when the mover
  reaches one of its two checkpoints.
\<close>

datatype io_point = ProbeExists | ProbeWrite | ProbeRead | ProbeDiskUsage | ProbeUnlink

datatype checkpoint = BeforeDelete | AtCompletion

record world =
  files :: fsys
  system :: string
  mount_points :: "path list"
  disk_free :: "path \<Rightarrow> nat"
  pid :: nat
  now :: nat
  cwd :: path
  io_fault :: "io_point \<Rightarrow> exn option"
  garbled :: bool
  monitor_flag :: "checkpoint \<Rightarrow> bool"

definition at_cwd :: "world \<Rightarrow> link_target \<Rightarrow> path" where
  "at_cwd w t = from_dir (cwd w) t"

text \<open>\<open>str(n)\<close> for a natural number and \<open>str(p)\<close> for a path.\<close>

function str_nat :: "nat \<Rightarrow> string" where
  "str_nat n =
     (if n < 10 then [''0123456789'' ! n]
      else str_nat (n div 10) @ [''0123456789'' ! (n mod 10)])"
  by pat_completeness auto
termination
  by (relation "measure id") auto

declare str_nat.simps [simp del]

definition str_path :: "path \<Rightarrow> string" where
  "str_path p = (if p = [] then ''/'' else concat (map (\<lambda>c. CHR ''/'' # c) p))"

text \<open>\<open>Path(str(p) + suffix)\<close>: the suffix lands on the last component.\<close>

definition with_suffix :: "path \<Rightarrow> string \<Rightarrow> path" where
  "with_suffix p sfx = (if p = [] then [sfx] else butlast p @ [last p @ sfx])"

text \<open>\<open>os.path.ismount\<close>: a directory (not a link) that the mount table lists; the root is
  one.  It never raises.\<close>

definition ismount :: "world \<Rightarrow> path \<Rightarrow> bool" where
  "ismount w p = (lstat (files w) p = Some Dir \<and> (p = [] \<or> p \<in> set (mount_points w)))"

definition is_oserror :: "exn \<Rightarrow> bool" where
  "is_oserror e =
     (case e of
        OSError m \<Rightarrow> True
      | PermissionError m \<Rightarrow> True
      | FileNotFoundError m \<Rightarrow> True
      | FileExistsError m \<Rightarrow> True
      | ShutilError m \<Rightarrow> True
      | _ \<Rightarrow> False)"


section \<open>Mount verification (utils.py, \<open>verify_usb_mounted\<close>)\<close>

text \<open>The six f-strings of \<open>error_message\<close>, kept as their format and arguments.\<close>

datatype usb_message =
    MsgPathMissing path
  | MsgCannotWrite exn
  | MsgNotMountPoint path
  | MsgNotWritable path
  | MsgInsufficient int path
  | MsgOk
  | MsgVerificationFailed exn

record USBVerificationResult =
  is_mounted :: bool
  is_writable :: bool
  has_space :: bool
  error_message :: usb_message
  mount_type :: string

text \<open>Lines 59--65: the walk up the parents, to \<open>/Volumes\<close> or the root.\<close>

function ancestor_mounted :: "world \<Rightarrow> path \<Rightarrow> bool" where
  "ancestor_mounted w current =
     (if str_path current \<noteq> ''/Volumes'' \<and> current \<noteq> path_parent current
      then (if ismount w current then True else ancestor_mounted w (path_parent current))
      else False)"
  by pat_completeness auto
termination
  apply (relation "measure (\<lambda>(w, current). length current)")
   apply simp
  subgoal for w current
    by (cases current rule: rev_cases) (auto simp: path_parent_def)
  done

declare ancestor_mounted.simps [simp del]

text \<open>Lines 42--65: is the path (or, on macOS, one of its parents) a mount point?\<close>

definition detect_mount :: "world \<Rightarrow> path \<Rightarrow> bool \<times> string" where
  "detect_mount w usb_path =
     (let here = (let m = ismount w usb_path
                  in (m, if m then ''mount_point'' else ''directory''));
          r = (if system w = ''Darwin''
               then (if prefix ''/Volumes/'' (str_path usb_path) then here
                     else (False, ''directory''))
               else here)
      in if \<not> fst r \<and> system w = ''Darwin''
         then (if ancestor_mounted w usb_path then (True, ''mount_point'') else r)
         else r)"

definition probe_file :: "world \<Rightarrow> path \<Rightarrow> path" where
  "probe_file w usb_path = usb_path @ [''.llm_mover_test_'' @ str_nat (pid w)]"

text \<open>Lines 72--91, the body of the inner \<open>try\<close>: write, read back, free space, clean up.
  It gives \<open>(is_writable, has_space)\<close>.\<close>

definition write_probe :: "world \<Rightarrow> path \<Rightarrow> int \<Rightarrow> (exn + bool \<times> bool) \<times> world" where
  "write_probe w usb_path min_space_bytes =
     (let test_file = probe_file w usb_path;
          test_data = ''LLM_MOVER_TEST_'' @ str_nat (now w)
      in case io_fault w ProbeWrite of
           Some e \<Rightarrow> (Inl e, w)
         | None \<Rightarrow>
         (case write_file (files w) test_file test_data of
            Inl e \<Rightarrow> (Inl e, w)
          | Inr fs1 \<Rightarrow>
          (let w1 = w\<lparr>files := fs1\<rparr>
           in case io_fault w ProbeRead of
                Some e \<Rightarrow> (Inl e, w1)
              | None \<Rightarrow>
              (case read_file fs1 test_file of
                 Inl e \<Rightarrow> (Inl e, w1)
               | Inr b \<Rightarrow>
               (let read_data = (if garbled w then [] else b);
                    is_writable = (read_data = test_data)
                in case io_fault w ProbeDiskUsage of
                     Some e \<Rightarrow> (Inl e, w1)
                   | None \<Rightarrow>
                   (if \<not> path_exists fs1 usb_path
                    then (Inl (FileNotFoundError ''disk_usage''), w1)
                    else
                    (let has_space = (int (disk_free w usb_path) \<ge> min_space_bytes)
                     in case io_fault w ProbeUnlink of
                          Some e \<Rightarrow> (Inl e, w1)
                        | None \<Rightarrow>
                        (case unlink fs1 test_file of
                           Inl e \<Rightarrow> (Inl e, w1)
                         | Inr fs2 \<Rightarrow>
                             (Inr (is_writable, has_space), w1\<lparr>files := fs2\<rparr>)))))))))"

text \<open>Lines 94--99: the clean-up of the handler, whose own errors are swallowed.\<close>

definition probe_cleanup :: "world \<Rightarrow> path \<Rightarrow> world" where
  "probe_cleanup w test_file =
     (if path_exists (files w) test_file
      then (case io_fault w ProbeUnlink of
              Some e \<Rightarrow> w
            | None \<Rightarrow> (case unlink (files w) test_file of
                         Inl e \<Rightarrow> w
                       | Inr fs1 \<Rightarrow> w\<lparr>files := fs1\<rparr>))
      else w)"

text \<open>Lines 34--123: the body of the outer \<open>try\<close>, where an exception can still escape.\<close>

definition verify_usb_mounted_try ::
  "world \<Rightarrow> path \<Rightarrow> int \<Rightarrow> (exn + USBVerificationResult) \<times> world" where
  "verify_usb_mounted_try w usb_path min_space_bytes =
     (case io_fault w ProbeExists of
        Some e \<Rightarrow> (Inl e, w)
      | None \<Rightarrow>
        (if \<not> path_exists (files w) usb_path
         then (Inr \<lparr>is_mounted = False, is_writable = False, has_space = False,
                    error_message = MsgPathMissing usb_path,
                    mount_type = ''not_mounted''\<rparr>, w)
         else
         (let is_mount_point = fst (detect_mount w usb_path);
              mtype = snd (detect_mount w usb_path)
          in case write_probe w usb_path min_space_bytes of
               (Inl e, w1) \<Rightarrow>
                 (if is_oserror e
                  then (Inr \<lparr>is_mounted = is_mount_point, is_writable = False,
                             has_space = False, error_message = MsgCannotWrite e,
                             mount_type = mtype\<rparr>,
                        probe_cleanup w1 (probe_file w usb_path))
                  else (Inl e, w1))
             | (Inr (iw, hs), w1) \<Rightarrow>
                 (let error_msg =
                        (if \<not> is_mount_point then MsgNotMountPoint usb_path
                         else if \<not> iw then MsgNotWritable usb_path
                         else if \<not> hs then MsgInsufficient min_space_bytes usb_path
                         else MsgOk)
                  in (Inr \<lparr>is_mounted = is_mount_point, is_writable = iw, has_space = hs,
                            error_message = error_msg, mount_type = mtype\<rparr>, w1)))))"

text \<open>Lines 33 and 125--130: the outer handler turns every exception into a status.\<close>

definition verify_usb_mounted ::
  "world \<Rightarrow> path \<Rightarrow> int \<Rightarrow> (exn + USBVerificationResult) \<times> world" where
  "verify_usb_mounted w usb_path min_space_bytes =
     (case verify_usb_mounted_try w usb_path min_space_bytes of
        (Inl e, w1) \<Rightarrow>
          (Inr \<lparr>is_mounted = False, is_writable = False, has_space = False,
                error_message = MsgVerificationFailed e, mount_type = ''unknown''\<rparr>, w1)
      | (Inr r, w1) \<Rightarrow> (Inr r, w1))"



section \<open>Integrity check (utils.py, \<open>verify_file_integrity\<close>)\<close>

definition GiB :: nat where
  "GiB = 1024 * 1024 * 1024"

definition MiB :: nat where
  "MiB = 1024 * 1024"

text \<open>
  \<open>_calculate_checksum\<close>: \<open>hashlib.md5\<close> is the parameter \<open>md5\<close>, from the bytes of a file to
  its hex digest; feeding it the chunks of 8192 bytes in order is feeding it the file.
  A file that cannot be opened has the digest \<open>""\<close>.
\<close>

definition calculate_checksum :: "(string \<Rightarrow> string) \<Rightarrow> fsys \<Rightarrow> path \<Rightarrow> string" where
  "calculate_checksum md5 fs file_path =
     (case read_file fs file_path of Inl e \<Rightarrow> [] | Inr b \<Rightarrow> md5 b)"

text \<open>\<open>_verify_large_file\<close>: \<open>seek(-1 MiB, 2)\<close> raises on a shorter file, and every exception
  gives \<open>False\<close>.\<close>

definition verify_large_file :: "fsys \<Rightarrow> path \<Rightarrow> path \<Rightarrow> bool" where
  "verify_large_file fs source destination =
     (case (read_file fs source, read_file fs destination) of
        (Inr sf, Inr df) \<Rightarrow>
          (if take MiB sf \<noteq> take MiB df then False
           else (case st_size fs source of
                   Inl e \<Rightarrow> False
                 | Inr file_size \<Rightarrow>
                     (let middle = file_size div 2
                      in if take MiB (drop middle sf) \<noteq> take MiB (drop middle df) then False
                         else if length sf < MiB \<or> length df < MiB then False
                         else if drop (length sf - MiB) sf \<noteq> drop (length df - MiB) df
                              then False
                         else True)))
      | _ \<Rightarrow> False)"

definition verify_file_integrity ::
  "(string \<Rightarrow> string) \<Rightarrow> fsys \<Rightarrow> path \<Rightarrow> path \<Rightarrow> exn + bool" where
  "verify_file_integrity md5 fs source destination =
     (if \<not> path_exists fs source \<or> \<not> path_exists fs destination then Inr False
      else (case st_size fs source of
              Inl e \<Rightarrow> Inl e
            | Inr source_size \<Rightarrow>
                (case st_size fs destination of
                   Inl e \<Rightarrow> Inl e
                 | Inr dest_size \<Rightarrow>
                     (if source_size \<noteq> dest_size then Inr False
                      else if source_size > GiB
                           then Inr (verify_large_file fs source destination)
                      else Inr (calculate_checksum md5 fs source =
                                calculate_checksum md5 fs destination)))))"

text \<open>The comparison the specification describes for large files: the first, the middle
  and the last MiB of the two contents.\<close>

definition three_samples_agree :: "string \<Rightarrow> string \<Rightarrow> bool" where
  "three_samples_agree sb db =
     (take MiB sb = take MiB db \<and>
      take MiB (drop (length sb div 2) sb) = take MiB (drop (length sb div 2) db) \<and>
      drop (length sb - MiB) sb = drop (length db - MiB) db)"


section \<open>Link health (utils.py, \<open>check_symlink_health\<close>)\<close>

record health =
  h_is_symlink :: bool
  h_exists :: bool
  h_target_exists :: bool
  h_target_path :: "link_target option"
  h_is_broken :: bool
  h_size_match :: bool

text \<open>The target \<open>readlink\<close> gives is used as a path of its own, so a relative target is
  looked up from the working directory.  An exception inside the \<open>try\<close> marks the link
  broken and keeps the fields set so far.\<close>

definition check_symlink_health :: "world \<Rightarrow> path \<Rightarrow> health" where
  "check_symlink_health w symlink_path =
     (let fs = files w;
          result = \<lparr>h_is_symlink = False, h_exists = path_exists fs symlink_path,
                    h_target_exists = False, h_target_path = None,
                    h_is_broken = False, h_size_match = False\<rparr>
      in if \<not> path_exists fs symlink_path then result
         else if path_is_symlink fs symlink_path
         then (case readlink fs symlink_path of
                 Inl e \<Rightarrow> result\<lparr>h_is_symlink := True, h_is_broken := True\<rparr>
               | Inr target \<Rightarrow>
                   (let tp = at_cwd w target;
                        result1 = result\<lparr>h_is_symlink := True, h_target_path := Some target,
                                           h_target_exists := path_exists fs tp\<rparr>
                    in if \<not> path_exists fs tp then result1\<lparr>h_is_broken := True\<rparr>
                       else if path_is_file fs symlink_path \<and> path_is_file fs tp
                       then (case (st_size fs symlink_path, st_size fs tp) of
                               (Inr a, Inr b) \<Rightarrow> result1\<lparr>h_size_match := (a = b)\<rparr>
                             | _ \<Rightarrow> result1\<lparr>h_is_broken := True\<rparr>)
                       else if path_is_dir fs symlink_path \<and> path_is_dir fs tp
                       then result1\<lparr>h_size_match := True\<rparr>
                       else result1))
         else result)"


section \<open>Configuration (config.py)\<close>

text \<open>\<open>ConfigManager.config_data\<close>: the three keys the engine reads, each possibly absent.\<close>

record config_data =
  symlink_strategy :: "string option"
  file_size_threshold_mb :: "int option"
  keep_local_patterns :: "string list option"

definition MIN_FREE_SPACE_BUFFER :: nat where
  "MIN_FREE_SPACE_BUFFER = 1024 * 1024 * 100"

definition get_symlink_strategy :: "config_data \<Rightarrow> string" where
  "get_symlink_strategy c = (case symlink_strategy c of None \<Rightarrow> ''auto'' | Some s \<Rightarrow> s)"

definition get_file_size_threshold_bytes :: "config_data \<Rightarrow> int" where
  "get_file_size_threshold_bytes c =
     (case file_size_threshold_mb c of None \<Rightarrow> 100 | Some t \<Rightarrow> t) * 1024 * 1024"

definition get_keep_local_patterns :: "config_data \<Rightarrow> string list" where
  "get_keep_local_patterns c =
     (case keep_local_patterns c of
        None \<Rightarrow> [''*.json'', ''*.txt'', ''*.yaml'', ''*.yml'', ''*.md'', ''tokenizer*'']
      | Some ps \<Rightarrow> ps)"


section \<open>Models and their manager (models.py)\<close>

record ModelInfo =
  name :: string
  path :: path
  size_bytes :: nat
  publisher :: string
  model_name :: string
  is_symlink :: bool
  linked_to :: "link_target option"
  has_internal_symlinks :: bool
  internal_symlink_target :: "path option"
  mtype :: string

text \<open>The manager: \<open>_models\<close> is the dictionary in its insertion order; a model object
  mutated in place is the entry of its key replaced.\<close>

record ModelManager =
  mgr_local_path :: path
  mgr_usb_path :: path
  mgr_config :: config_data
  mgr_models :: "(string \<times> ModelInfo) list"
  mgr_usb_verification :: "USBVerificationResult option"

definition model_values :: "ModelManager \<Rightarrow> ModelInfo list" where
  "model_values mgr = map snd (mgr_models mgr)"

definition get_model_by_name :: "ModelManager \<Rightarrow> string \<Rightarrow> ModelInfo option" where
  "get_model_by_name mgr n = map_of (mgr_models mgr) n"

definition update_model :: "ModelManager \<Rightarrow> string \<Rightarrow> ModelInfo \<Rightarrow> ModelManager" where
  "update_model mgr n m =
     mgr\<lparr>mgr_models := map (\<lambda>(k, v). if k = n then (k, m) else (k, v)) (mgr_models mgr)\<rparr>"

definition get_movable_models :: "ModelManager \<Rightarrow> ModelInfo list" where
  "get_movable_models mgr =
     filter (\<lambda>model. \<not> is_symlink model \<and> \<not> has_internal_symlinks model) (model_values mgr)"

definition get_usb_models :: "ModelManager \<Rightarrow> ModelInfo list" where
  "get_usb_models mgr =
     filter (\<lambda>model. is_symlink model \<or> has_internal_symlinks model) (model_values mgr)"

definition usb_available :: "ModelManager \<Rightarrow> bool" where
  "usb_available mgr =
     (case mgr_usb_verification mgr of
        None \<Rightarrow> False
      | Some v \<Rightarrow> is_mounted v \<and> is_writable v \<and> has_space v)"

text \<open>\<open>shutil.disk_usage(usb_path).free\<close> behind \<open>get_usb_space_info\<close>; any failure gives 0.\<close>

definition get_usb_space_free :: "ModelManager \<Rightarrow> world \<Rightarrow> nat" where
  "get_usb_space_free mgr w =
     (if \<not> usb_available mgr then 0
      else if path_exists (files w) (mgr_usb_path mgr) then disk_free w (mgr_usb_path mgr)
      else 0)"


section \<open>The per-file partition (models.py, \<open>_move_with_file_symlinks\<close>; utils.py,
  \<open>should_keep_local\<close>)\<close>

text \<open>\<open>fnmatch.fnmatch\<close> is the parameter \<open>fnmatch\<close>, from a file name and a pattern.\<close>

fun should_keep_local :: "(string \<Rightarrow> string \<Rightarrow> bool) \<Rightarrow> path \<Rightarrow> string list \<Rightarrow> bool" where
  "should_keep_local fnmatch file_path [] = False"
| "should_keep_local fnmatch file_path (pattern # keep_patterns) =
     (if fnmatch (path_name file_path) pattern then True
      else should_keep_local fnmatch file_path keep_patterns)"

text \<open>Lines 303--304: the regular files below the model's directory.\<close>

definition all_files_of :: "fsys \<Rightarrow> path \<Rightarrow> path list" where
  "all_files_of fs model_path = filter (path_is_file fs) (rglob fs model_path)"

text \<open>Lines 306--317: the loop, with its two lists as accumulators.\<close>

fun partition_files ::
  "(string \<Rightarrow> string \<Rightarrow> bool) \<Rightarrow> fsys \<Rightarrow> string list \<Rightarrow> int \<Rightarrow> path list \<Rightarrow>
   path list \<times> path list \<Rightarrow> exn + path list \<times> path list" where
  "partition_files fnmatch fs keep_patterns size_threshold [] acc = Inr acc"
| "partition_files fnmatch fs keep_patterns size_threshold (file_path # rest) acc =
     (if should_keep_local fnmatch file_path keep_patterns
      then partition_files fnmatch fs keep_patterns size_threshold rest
             (fst acc, snd acc @ [file_path])
      else (case st_size fs file_path of
              Inl e \<Rightarrow> Inl e
            | Inr sz \<Rightarrow>
                (if int sz \<ge> size_threshold
                 then partition_files fnmatch fs keep_patterns size_threshold rest
                        (fst acc @ [file_path], snd acc)
                 else partition_files fnmatch fs keep_patterns size_threshold rest
                        (fst acc, snd acc @ [file_path]))))"


section \<open>Moving with verification and rollback (utils.py)\<close>

definition backup_suffix :: "world \<Rightarrow> string" where
  "backup_suffix w = ''.backup_'' @ str_nat (pid w)"

definition str_exn :: "exn \<Rightarrow> string" where
  "str_exn e =
     (case e of
        OSError m \<Rightarrow> m | PermissionError m \<Rightarrow> m | FileNotFoundError m \<Rightarrow> m
      | FileExistsError m \<Rightarrow> m | ShutilError m \<Rightarrow> m | ValueError m \<Rightarrow> m
      | RuntimeError m \<Rightarrow> m | OtherException m \<Rightarrow> m)"

text \<open>\<open>f.stat().st_size\<close> of a path that \<open>is_file()\<close> has just accepted, and the sum of these
  sizes over the regular files below a directory.\<close>

definition size_of :: "fsys \<Rightarrow> path \<Rightarrow> nat" where
  "size_of fs p = (case st_size fs p of Inl e \<Rightarrow> 0 | Inr n \<Rightarrow> n)"

definition tree_size :: "fsys \<Rightarrow> path \<Rightarrow> nat" where
  "tree_size fs p = sum_list (map (size_of fs) (filter (path_is_file fs) (rglob fs p)))"

text \<open>Lines 287--305 (and 372--390): the verification after the transfer.  A destination
  that is neither a file nor a directory passes.\<close>

definition verify_moved :: "fsys \<Rightarrow> path \<Rightarrow> exn option" where
  "verify_moved fs destination =
     (if path_is_file fs destination
      then (if \<not> path_exists fs destination \<or> size_of fs destination = 0
            then Some (ValueError ''Destination file is empty or doesn't exist'')
            else None)
      else if path_is_dir fs destination
      then (if \<not> path_exists fs destination
            then Some (ValueError ''Destination directory doesn't exist'')
            else (let total_files = length (filter (path_is_file fs) (rglob fs destination));
                      total_size = tree_size fs destination
                  in if total_files = 0
                     then Some (ValueError ''Destination directory is empty (no files found)'')
                     else if total_size = 0
                     then Some (ValueError
                            ''Destination directory has no content (total size is 0)'')
                     else None))
      else None)"

text \<open>
  \<open>_monitored_move\<close>.  The monitor thread only sets a flag; what the flag holds at the two
  places where the mover reads it is \<open>monitor_flag\<close>.
\<close>

definition disconnected :: exn where
  "disconnected = RuntimeError ''USB disconnected during move operation''"

definition monitored_move :: "world \<Rightarrow> path \<Rightarrow> path \<Rightarrow> path option \<Rightarrow> exn option \<times> world" where
  "monitored_move w source destination monitor_usb_path =
     (if path_is_file (files w) source
      then (case shutil_move (files w) source destination of
              Inl e \<Rightarrow> (Some e, w)
            | Inr fs1 \<Rightarrow>
                (if monitor_usb_path \<noteq> None \<and> monitor_flag w AtCompletion
                 then (Some disconnected, w\<lparr>files := fs1\<rparr>)
                 else (None, w\<lparr>files := fs1\<rparr>)))
      else (case copytree (files w) source destination of
              (Some e, fs1) \<Rightarrow> (Some e, w\<lparr>files := fs1\<rparr>)
            | (None, fs1) \<Rightarrow>
                (if monitor_usb_path \<noteq> None \<and> monitor_flag w BeforeDelete
                 then (Some disconnected, w\<lparr>files := fs1\<rparr>)
                 else (case rmtree fs1 source of
                         Inl e \<Rightarrow> (Some e, w\<lparr>files := fs1\<rparr>)
                       | Inr fs2 \<Rightarrow>
                           (if monitor_usb_path \<noteq> None \<and> monitor_flag w AtCompletion
                            then (Some disconnected, w\<lparr>files := fs2\<rparr>)
                            else (None, w\<lparr>files := fs2\<rparr>))))))"

text \<open>Removing a path that exists: \<open>rmtree\<close> for what \<open>is_dir()\<close>, \<open>unlink\<close> otherwise.\<close>

definition remove_path :: "fsys \<Rightarrow> path \<Rightarrow> exn + fsys" where
  "remove_path fs p = (if path_is_dir fs p then rmtree fs p else unlink fs p)"

text \<open>
  Lines 267--314, the body of the \<open>try\<close> of \<open>safe_move_with_verification\<close>.  It gives the
  exception raised, if any, and the value \<open>backup_path\<close> has at that moment.
\<close>

definition smv_body ::
  "world \<Rightarrow> path \<Rightarrow> path \<Rightarrow> path option \<Rightarrow> exn option \<times> path option \<times> world" where
  "smv_body w source destination monitor_usb_path =
     (let backup_path = (if path_exists (files w) destination
                         then Some (with_suffix destination (backup_suffix w)) else None)
      in case (case backup_path of
                 None \<Rightarrow> Inr (files w)
               | Some b \<Rightarrow> shutil_move (files w) destination b) of
           Inl e \<Rightarrow> (Some e, backup_path, w)
         | Inr fs1 \<Rightarrow>
           (let w1 = w\<lparr>files := fs1\<rparr>;
                source_size = (if path_is_file fs1 source then size_of fs1 source
                               else if path_is_dir fs1 source then tree_size fs1 source
                               else 0);
                moved = (if source_size > GiB \<or> monitor_usb_path \<noteq> None
                         then monitored_move w1 source destination monitor_usb_path
                         else (case shutil_move fs1 source destination of
                                 Inl e \<Rightarrow> (Some e, w1)
                               | Inr fs2 \<Rightarrow> (None, w1\<lparr>files := fs2\<rparr>)))
            in case moved of
                 (Some e, w2) \<Rightarrow> (Some e, backup_path, w2)
               | (None, w2) \<Rightarrow>
                 (case verify_moved (files w2) destination of
                    Some e \<Rightarrow> (Some e, backup_path, w2)
                  | None \<Rightarrow>
                    (case backup_path of
                       None \<Rightarrow> (None, backup_path, w2)
                     | Some b \<Rightarrow>
                         (if path_exists (files w2) b
                          then (case remove_path (files w2) b of
                                  Inl e \<Rightarrow> (Some e, backup_path, w2)
                                | Inr fs3 \<Rightarrow> (None, backup_path, w2\<lparr>files := fs3\<rparr>))
                          else (None, backup_path, w2))))))"

text \<open>Lines 316--337, the recovery of the handler; an exception inside it ends it, with
  what it has done so far.\<close>

definition smv_recover :: "world \<Rightarrow> path \<Rightarrow> path \<Rightarrow> path option \<Rightarrow> world" where
  "smv_recover w source destination backup_path =
     (case (if path_exists (files w) destination then remove_path (files w) destination
            else Inr (files w)) of
        Inl e \<Rightarrow> w
      | Inr fs1 \<Rightarrow>
        (case (case backup_path of
                 None \<Rightarrow> Inr fs1
               | Some b \<Rightarrow> (if path_exists fs1 b then shutil_move fs1 b source else Inr fs1)) of
           Inl e \<Rightarrow> w\<lparr>files := fs1\<rparr>
         | Inr fs2 \<Rightarrow>
           (if backup_path \<noteq> None \<and> \<not> path_exists fs2 destination
            then (let backup_path_check = with_suffix destination (backup_suffix w)
                  in if path_exists fs2 backup_path_check
                     then (case shutil_move fs2 backup_path_check destination of
                             Inl e \<Rightarrow> w\<lparr>files := fs2\<rparr>
                           | Inr fs3 \<Rightarrow> w\<lparr>files := fs3\<rparr>)
                     else w\<lparr>files := fs2\<rparr>)
            else w\<lparr>files := fs2\<rparr>)))"

text \<open>Lines 258--265 and 339: the check of the monitored root before the operation, and the
  handler raising the exception it caught.\<close>

definition safe_move_with_verification ::
  "world \<Rightarrow> path \<Rightarrow> path \<Rightarrow> path option \<Rightarrow> (exn + bool) \<times> world" where
  "safe_move_with_verification w source destination monitor_usb_path =
     (let run = (\<lambda>w1. case smv_body w1 source destination monitor_usb_path of
                         (None, backup_path, w2) \<Rightarrow> (Inr True, w2)
                       | (Some e, backup_path, w2) \<Rightarrow>
                           (Inl e, smv_recover w2 source destination backup_path))
      in case monitor_usb_path of
           None \<Rightarrow> run w
         | Some m \<Rightarrow>
             (case verify_usb_mounted w m (1024 * 1024 * 100) of
                (Inl e, w1) \<Rightarrow> (Inl e, w1)
              | (Inr usb_check, w1) \<Rightarrow>
                  (if \<not> (is_mounted usb_check \<and> is_writable usb_check)
                   then (Inl (RuntimeError ''USB verification failed before operation''), w1)
                   else run w1)))"


section \<open>Per-file links (utils.py, \<open>safe_move_with_file_symlinks\<close>)\<close>

text \<open>Lines 682--700: the loop over the files to move, with \<open>moved_files\<close> and
  \<open>created_symlinks\<close>; it stops at the first exception.\<close>

fun fsl_loop ::
  "fsys \<Rightarrow> path \<Rightarrow> path \<Rightarrow> path list \<Rightarrow> (path \<times> path) list \<Rightarrow> path list \<Rightarrow>
   exn option \<times> fsys \<times> (path \<times> path) list \<times> path list" where
  "fsl_loop fs model_directory usb_directory [] moved_files created_symlinks =
     (None, fs, moved_files, created_symlinks)"
| "fsl_loop fs model_directory usb_directory (file_path # rest) moved_files created_symlinks =
     (if \<not> prefix model_directory file_path
      then (Some (ValueError ''relative_to''), fs, moved_files, created_symlinks)
      else
      (let usb_target = usb_directory @ drop (length model_directory) file_path
       in case mkdir_parents fs (path_parent usb_target) of
            Inl e \<Rightarrow> (Some e, fs, moved_files, created_symlinks)
          | Inr fs1 \<Rightarrow>
            (case shutil_move fs1 file_path usb_target of
               Inl e \<Rightarrow> (Some e, fs1, moved_files, created_symlinks)
             | Inr fs2 \<Rightarrow>
               (case symlink_to fs2 file_path (Abs usb_target) of
                  Inl e \<Rightarrow>
                    (Some e, fs2, moved_files @ [(file_path, usb_target)], created_symlinks)
                | Inr fs3 \<Rightarrow>
                    (if \<not> path_exists fs3 file_path \<or> \<not> path_is_symlink fs3 file_path
                     then (Some (RuntimeError ''Symlink verification failed''), fs3,
                           moved_files @ [(file_path, usb_target)],
                           created_symlinks @ [file_path])
                     else fsl_loop fs3 model_directory usb_directory rest
                            (moved_files @ [(file_path, usb_target)])
                            (created_symlinks @ [file_path]))))))"

text \<open>Lines 711--723: the two recovery loops, each step swallowing its own errors.\<close>

fun unlink_links :: "fsys \<Rightarrow> path list \<Rightarrow> fsys" where
  "unlink_links fs [] = fs"
| "unlink_links fs (symlink_path # rest) =
     (if path_is_symlink fs symlink_path
      then (case unlink fs symlink_path of
              Inl e \<Rightarrow> unlink_links fs rest
            | Inr fs1 \<Rightarrow> unlink_links fs1 rest)
      else unlink_links fs rest)"

fun move_back :: "fsys \<Rightarrow> (path \<times> path) list \<Rightarrow> fsys" where
  "move_back fs [] = fs"
| "move_back fs ((file_path, usb_target) # rest) =
     (if path_exists fs usb_target \<and> \<not> path_exists fs file_path
      then (case shutil_move fs usb_target file_path of
              Inl e \<Rightarrow> move_back fs rest
            | Inr fs1 \<Rightarrow> move_back fs1 rest)
      else move_back fs rest)"

definition safe_move_with_file_symlinks ::
  "world \<Rightarrow> path \<Rightarrow> path \<Rightarrow> path list \<Rightarrow> path list \<Rightarrow> (exn + bool) \<times> world" where
  "safe_move_with_file_symlinks w model_directory usb_directory files_to_move keep_local_files =
     (let failed = (\<lambda>e fs moved_files created_symlinks.
            (Inl (RuntimeError (''Failed to create file symlinks: '' @ str_exn e)),
             w\<lparr>files := move_back (unlink_links fs created_symlinks) moved_files\<rparr>))
      in case mkdir_parents (files w) usb_directory of
           Inl e \<Rightarrow> failed e (files w) [] []
         | Inr fs1 \<Rightarrow>
           (case fsl_loop fs1 model_directory usb_directory files_to_move [] [] of
              (Some e, fs2, moved_files, created_symlinks) \<Rightarrow>
                failed e fs2 moved_files created_symlinks
            | (None, fs2, moved_files, created_symlinks) \<Rightarrow>
                (if list_ex (\<lambda>file_path. \<not> path_exists fs2 file_path) files_to_move
                 then failed (RuntimeError ''File not accessible after move'') fs2
                        moved_files created_symlinks
                 else (Inr True, w\<lparr>files := fs2\<rparr>))))"


section \<open>Restoring from the removable root (utils.py)\<close>

text \<open>\<open>shutil.copy2(src, dst, follow_symlinks=False)\<close> of a link: a new link with the same
  recorded target.\<close>

definition copy_link :: "fsys \<Rightarrow> path \<Rightarrow> path \<Rightarrow> exn + fsys" where
  "copy_link fs src dst =
     (case readlink fs src of
        Inl e \<Rightarrow> Inl e
      | Inr t \<Rightarrow> symlink_to fs (if path_is_dir fs dst then dst @ [path_name src] else dst) t)"

text \<open>Lines 348--396, the body of the \<open>try\<close> of \<open>safe_restore_from_usb\<close>, with the value of
  \<open>backup_symlink\<close> when it ends.\<close>

definition srf_body ::
  "world \<Rightarrow> path \<Rightarrow> path \<Rightarrow> path \<Rightarrow> exn option \<times> path option \<times> world" where
  "srf_body w symlink_path usb_source local_destination =
     (let fs = files w; backup_symlink = with_suffix symlink_path (backup_suffix w)
      in if \<not> path_exists fs symlink_path
         then (Some (ValueError ''Symlink path doesn't exist''), None, w)
         else if \<not> path_is_symlink fs symlink_path
         then (Some (ValueError ''Path is not a symlink''), None, w)
         else if \<not> path_exists fs usb_source
         then (Some (ValueError ''USB source doesn't exist''), None, w)
         else if path_exists fs local_destination \<and> \<not> path_is_symlink fs local_destination
         then (Some (ValueError ''Local destination already exists and is not a symlink''),
               None, w)
         else
         (case (if path_exists fs backup_symlink then unlink fs backup_symlink else Inr fs) of
            Inl e \<Rightarrow> (Some e, Some backup_symlink, w)
          | Inr fs1 \<Rightarrow>
            (case copy_link fs1 symlink_path backup_symlink of
               Inl e \<Rightarrow> (Some e, Some backup_symlink, w\<lparr>files := fs1\<rparr>)
             | Inr fs2 \<Rightarrow>
               (case unlink fs2 symlink_path of
                  Inl e \<Rightarrow> (Some e, Some backup_symlink, w\<lparr>files := fs2\<rparr>)
                | Inr fs3 \<Rightarrow>
                  (case shutil_move fs3 usb_source local_destination of
                     Inl e \<Rightarrow> (Some e, Some backup_symlink, w\<lparr>files := fs3\<rparr>)
                   | Inr fs4 \<Rightarrow>
                     (case verify_moved fs4 local_destination of
                        Some e \<Rightarrow> (Some e, Some backup_symlink, w\<lparr>files := fs4\<rparr>)
                      | None \<Rightarrow>
                          (if path_exists fs4 backup_symlink
                           then (case unlink fs4 backup_symlink of
                                   Inl e \<Rightarrow> (Some e, Some backup_symlink, w\<lparr>files := fs4\<rparr>)
                                 | Inr fs5 \<Rightarrow>
                                     (None, Some backup_symlink, w\<lparr>files := fs5\<rparr>))
                           else (None, Some backup_symlink, w\<lparr>files := fs4\<rparr>))))))))"

text \<open>Lines 398--413, the recovery of the handler.\<close>

definition srf_recover :: "world \<Rightarrow> path \<Rightarrow> path \<Rightarrow> path \<Rightarrow> path option \<Rightarrow> world" where
  "srf_recover w symlink_path usb_source local_destination backup_symlink =
     (case (if path_exists (files w) local_destination
               \<and> path_exists (files w) (path_parent usb_source)
            then shutil_move (files w) local_destination usb_source
            else Inr (files w)) of
        Inl e \<Rightarrow> w
      | Inr fs1 \<Rightarrow>
        (case backup_symlink of
           None \<Rightarrow> w\<lparr>files := fs1\<rparr>
         | Some b \<Rightarrow>
           (if path_exists fs1 b
            then (case (if path_exists fs1 symlink_path then unlink fs1 symlink_path
                        else Inr fs1) of
                    Inl e \<Rightarrow> w\<lparr>files := fs1\<rparr>
                  | Inr fs2 \<Rightarrow>
                      (case shutil_move fs2 b symlink_path of
                         Inl e \<Rightarrow> w\<lparr>files := fs2\<rparr>
                       | Inr fs3 \<Rightarrow> w\<lparr>files := fs3\<rparr>))
            else w\<lparr>files := fs1\<rparr>)))"

definition safe_restore_from_usb ::
  "world \<Rightarrow> path \<Rightarrow> path \<Rightarrow> path \<Rightarrow> (exn + bool) \<times> world" where
  "safe_restore_from_usb w symlink_path usb_source local_destination =
     (case srf_body w symlink_path usb_source local_destination of
        (None, backup_symlink, w1) \<Rightarrow> (Inr True, w1)
      | (Some e, backup_symlink, w1) \<Rightarrow>
          (Inl e, srf_recover w1 symlink_path usb_source local_destination backup_symlink))"

text \<open>\<open>safe_restore_internal_symlinks\<close>.  Lines 421--432: the linked files whose resolved
  target lies directly in the directory on the removable root.\<close>

definition internal_links :: "fsys \<Rightarrow> path \<Rightarrow> path \<Rightarrow> (path \<times> path) list" where
  "internal_links fs model_directory usb_source_directory =
     concat (map (\<lambda>file_path.
        (if path_is_file fs file_path \<and> path_is_symlink fs file_path
         then (case realpath fs file_path of
                 None \<Rightarrow> []
               | Some target \<Rightarrow>
                   (if path_parent target = usb_source_directory
                    then [(file_path, target)] else []))
         else [])) (rglob fs model_directory))"

text \<open>Lines 459--465: putting back every link backed up so far.\<close>

fun restore_backups :: "fsys \<Rightarrow> (path \<times> path) list \<Rightarrow> fsys" where
  "restore_backups fs [] = fs"
| "restore_backups fs ((backup_symlink, backup_file) # rest) =
     (case (if path_exists fs backup_symlink then unlink fs backup_symlink else Inr fs) of
        Inl e \<Rightarrow> restore_backups fs rest
      | Inr fs1 \<Rightarrow>
          (case shutil_move fs1 backup_file backup_symlink of
             Inl e \<Rightarrow> restore_backups fs1 rest
           | Inr fs2 \<Rightarrow> restore_backups fs2 rest))"

text \<open>Lines 439--466: the loop that replaces each link by a copy of its file.\<close>

fun sri_loop ::
  "world \<Rightarrow> fsys \<Rightarrow> (path \<times> path) list \<Rightarrow> (path \<times> path) list \<Rightarrow>
   exn option \<times> fsys \<times> (path \<times> path) list" where
  "sri_loop w fs [] backups = (None, fs, backups)"
| "sri_loop w fs ((symlink_path, usb_target) # rest) backups =
     (let backup_path = with_suffix symlink_path (backup_suffix w)
      in case copy_link fs symlink_path backup_path of
           Inl e \<Rightarrow> (Some e, restore_backups fs backups, backups)
         | Inr fs1 \<Rightarrow>
           (let backups1 = backups @ [(symlink_path, backup_path)]
            in case unlink fs1 symlink_path of
                 Inl e \<Rightarrow> (Some e, restore_backups fs1 backups1, backups1)
               | Inr fs2 \<Rightarrow>
                 (case (case read_file fs2 usb_target of
                          Inl e \<Rightarrow> Inl e
                        | Inr b \<Rightarrow> write_file fs2 symlink_path b) of
                    Inl e \<Rightarrow> (Some e, restore_backups fs2 backups1, backups1)
                  | Inr fs3 \<Rightarrow>
                      (if \<not> path_exists fs3 symlink_path \<or> size_of fs3 symlink_path = 0
                       then (Some (ValueError ''Failed to copy''),
                             restore_backups fs3 backups1, backups1)
                       else sri_loop w fs3 rest backups1))))"

fun unlink_backups :: "fsys \<Rightarrow> (path \<times> path) list \<Rightarrow> exn + fsys" where
  "unlink_backups fs [] = Inr fs"
| "unlink_backups fs ((symlink_path, backup_path) # rest) =
     (if path_exists fs backup_path
      then (case unlink fs backup_path of
              Inl e \<Rightarrow> Inl e
            | Inr fs1 \<Rightarrow> unlink_backups fs1 rest)
      else unlink_backups fs rest)"

fun unlink_targets :: "fsys \<Rightarrow> (path \<times> path) list \<Rightarrow> fsys" where
  "unlink_targets fs [] = fs"
| "unlink_targets fs ((symlink_path, usb_target) # rest) =
     (case unlink fs usb_target of
        Inl e \<Rightarrow> unlink_targets fs rest
      | Inr fs1 \<Rightarrow> unlink_targets fs1 rest)"

text \<open>Lines 482--487: removing the directory on the removable root once it is empty.\<close>

definition rmdir_if_empty :: "fsys \<Rightarrow> path \<Rightarrow> fsys" where
  "rmdir_if_empty fs d =
     (if path_is_dir fs d
      then (case realpath fs d of
              None \<Rightarrow> fs
            | Some q \<Rightarrow>
                (if list_ex (\<lambda>(k, n). strict_prefix q k) fs \<or> path_is_symlink fs d \<or> q = []
                 then fs else remove_entry fs q))
      else fs)"

definition safe_restore_internal_symlinks ::
  "world \<Rightarrow> path \<Rightarrow> path \<Rightarrow> (exn + bool) \<times> world" where
  "safe_restore_internal_symlinks w model_directory usb_source_directory =
     (let failed = (\<lambda>e fs. (Inl (RuntimeError (''Failed to restore internal symlinks: ''
                                     @ str_exn e)), w\<lparr>files := fs\<rparr>));
          symlink_files = internal_links (files w) model_directory usb_source_directory
      in if symlink_files = []
         then failed (ValueError ''No valid internal symlinks found to restore'') (files w)
         else (case sri_loop w (files w) symlink_files [] of
                 (Some e, fs1, backups) \<Rightarrow> failed e fs1
               | (None, fs1, backups) \<Rightarrow>
                   (case unlink_backups fs1 backups of
                      Inl e \<Rightarrow> failed e fs1
                    | Inr fs2 \<Rightarrow>
                        (Inr True,
                         w\<lparr>files := rmdir_if_empty (unlink_targets fs2 symlink_files)
                                       usb_source_directory\<rparr>))))"


section \<open>Choosing the strategy (models.py, \<open>_determine_symlink_strategy\<close>)\<close>

text \<open>\<open>str.lower()\<close> on ASCII, \<open>a in b\<close> on strings, and \<open>Path.suffix\<close>.\<close>

definition lower_char :: "char \<Rightarrow> char" where
  "lower_char c =
     (let n = (of_char c :: nat) in if 65 \<le> n \<and> n \<le> 90 then char_of (n + 32) else c)"

definition lower :: "string \<Rightarrow> string" where
  "lower s = map lower_char s"

fun str_in :: "string \<Rightarrow> string \<Rightarrow> bool" where
  "str_in xs [] = (xs = [])"
| "str_in xs (y # ys) = (prefix xs (y # ys) \<or> str_in xs ys)"

definition path_suffix :: "path \<Rightarrow> string" where
  "path_suffix p =
     (let nm = path_name p;
          after = length (takeWhile (\<lambda>c. c \<noteq> CHR ''.'') (rev nm))
      in if CHR ''.'' \<in> set nm \<and> 0 < length nm - 1 - after \<and> 0 < after
         then drop (length nm - 1 - after) nm else [])"

definition determine_symlink_strategy :: "ModelManager \<Rightarrow> world \<Rightarrow> ModelInfo \<Rightarrow> string" where
  "determine_symlink_strategy mgr w model_info =
     (let config_strategy = get_symlink_strategy (mgr_config mgr)
      in if config_strategy \<in> set [''directory'', ''file''] then config_strategy
         else
         (let model_path = path model_info;
              lname = lower (name model_info);
              mlx_indicators =
                [str_in ''mlx'' lname,
                 str_in ''mx'' lname \<and> list_ex (\<lambda>x. str_in x lname) [''fp4'', ''fp6'', ''fp8''],
                 mtype model_info = ''mlx_dir'']
          in if list_ex (\<lambda>b. b) mlx_indicators then ''file''
             else if path_is_dir (files w) model_path
             then (let found = rglob (files w) model_path;
                       file_extensions = set (map (\<lambda>f. lower (path_suffix f))
                                                 (filter (path_is_file (files w)) found))
                   in if ''.safetensors'' \<in> file_extensions \<and> list_ex (\<lambda>b. b) mlx_indicators
                      then ''file''
                      else if list_ex (\<lambda>f. path_is_file (files w) f \<and>
                                list_ex (\<lambda>indicator. str_in indicator (lower (path_name f)))
                                  [''mxfp'', ''mx-'']) found
                      then ''file''
                      else if ''.gguf'' \<in> file_extensions \<and> \<not> list_ex (\<lambda>b. b) mlx_indicators
                      then ''directory''
                      else ''file'')
             else ''file''))"


section \<open>Relocating and restoring a model (models.py)\<close>

text \<open>\<open>_move_with_directory_symlink\<close>.\<close>

definition move_with_directory_symlink ::
  "ModelManager \<Rightarrow> world \<Rightarrow> ModelInfo \<Rightarrow> path \<Rightarrow> (exn + bool) \<times> ModelInfo \<times> world" where
  "move_with_directory_symlink mgr w model usb_dest =
     (case safe_move_with_verification w (path model) usb_dest (Some (mgr_usb_path mgr)) of
        (Inl e, w1) \<Rightarrow> (Inl e, model, w1)
      | (Inr ok, w1) \<Rightarrow>
          (case symlink_to (files w1) (path model) (Abs usb_dest) of
             Inl e \<Rightarrow> (Inl e, model, w1)
           | Inr fs2 \<Rightarrow>
               (if h_is_broken (check_symlink_health (w1\<lparr>files := fs2\<rparr>) (path model))
                then (Inl (RuntimeError ''Created symlink is broken''), model, w1\<lparr>files := fs2\<rparr>)
                else (Inr True,
                      model\<lparr>is_symlink := True, linked_to := Some (Abs usb_dest)\<rparr>,
                      w1\<lparr>files := fs2\<rparr>))))"

text \<open>\<open>_move_with_file_symlinks\<close>.\<close>

definition no_eligible_files :: exn where
  "no_eligible_files = RuntimeError ''No files meet the criteria for moving to USB''"

definition move_with_file_symlinks ::
  "(string \<Rightarrow> string \<Rightarrow> bool) \<Rightarrow> ModelManager \<Rightarrow> world \<Rightarrow> ModelInfo \<Rightarrow> path \<Rightarrow>
   (exn + bool) \<times> ModelInfo \<times> world" where
  "move_with_file_symlinks fnmatch mgr w model usb_dest =
     (if \<not> path_is_dir (files w) (path model)
      then move_with_directory_symlink mgr w model usb_dest
      else
      (let size_threshold = get_file_size_threshold_bytes (mgr_config mgr);
           keep_patterns = get_keep_local_patterns (mgr_config mgr);
           all_files = all_files_of (files w) (path model)
       in case partition_files fnmatch (files w) keep_patterns size_threshold all_files
                 ([], []) of
            Inl e \<Rightarrow> (Inl e, model, w)
          | Inr (files_to_move, files_to_keep) \<Rightarrow>
              (if files_to_move = [] then (Inl no_eligible_files, model, w)
               else (case safe_move_with_file_symlinks w (path model) usb_dest
                            files_to_move files_to_keep of
                       (Inl e, w1) \<Rightarrow> (Inl e, model, w1)
                     | (Inr success, w1) \<Rightarrow>
                         (if success
                          then (Inr True,
                                model\<lparr>has_internal_symlinks := True,
                                      internal_symlink_target := Some usb_dest\<rparr>, w1)
                          else (Inr False, model, w1))))))"

text \<open>\<open>estimate_copy_time\<close>, for what it does to the file system: it writes a file of 1 MiB
  below the destination and removes it again; its errors are swallowed.\<close>

definition estimate_copy_time :: "world \<Rightarrow> path \<Rightarrow> world" where
  "estimate_copy_time w dest_path =
     (let test_file = dest_path @ [''.speed_test_'' @ str_nat (pid w)]
      in case write_file (files w) test_file (replicate MiB (CHR ''0'')) of
           Inl e \<Rightarrow> w
         | Inr fs1 \<Rightarrow>
             (case unlink fs1 test_file of
                Inl e \<Rightarrow> w\<lparr>files := fs1\<rparr>
              | Inr fs2 \<Rightarrow> w\<lparr>files := fs2\<rparr>))"

text \<open>Lines 386--393 (and 463--468): the pre-flight check, storing the status.\<close>

definition refresh_usb_status ::
  "ModelManager \<Rightarrow> world \<Rightarrow> (exn + USBVerificationResult) \<times> ModelManager \<times> world" where
  "refresh_usb_status mgr w =
     (case verify_usb_mounted w (mgr_usb_path mgr) (1024 * 1024 * 100) of
        (Inl e, w1) \<Rightarrow> (Inl e, mgr, w1)
      | (Inr st, w1) \<Rightarrow> (Inr st, mgr\<lparr>mgr_usb_verification := Some st\<rparr>, w1))"

text \<open>Lines 402--410: the destination, creating the publisher's directory when there is
  one.\<close>

definition usb_dest_of :: "ModelManager \<Rightarrow> ModelInfo \<Rightarrow> path" where
  "usb_dest_of mgr model =
     (if publisher model \<noteq> [] then mgr_usb_path mgr @ [publisher model, model_name model]
      else mgr_usb_path mgr @ [model_name model])"

definition make_publisher_dir :: "ModelManager \<Rightarrow> world \<Rightarrow> ModelInfo \<Rightarrow> exn + world" where
  "make_publisher_dir mgr w model =
     (if publisher model \<noteq> []
      then (case mkdir (files w) (mgr_usb_path mgr @ [publisher model]) of
              Inl e \<Rightarrow> Inl e
            | Inr fs1 \<Rightarrow> Inr (w\<lparr>files := fs1\<rparr>))
      else Inr w)"

text \<open>Lines 430--452: the \<open>try\<close> around the strategy, and its handler, which moves the model
  back when it is at the destination and no longer at its place, and wraps the error.\<close>

definition relocate_guarded ::
  "(string \<Rightarrow> string \<Rightarrow> bool) \<Rightarrow> ModelManager \<Rightarrow> world \<Rightarrow> ModelInfo \<Rightarrow> path \<Rightarrow>
   (exn + bool) \<times> ModelInfo \<times> world" where
  "relocate_guarded fnmatch mgr w model usb_dest =
     (case (if determine_symlink_strategy mgr w model = ''file''
            then move_with_file_symlinks fnmatch mgr w model usb_dest
            else move_with_directory_symlink mgr w model usb_dest) of
        (Inr b, model1, w1) \<Rightarrow> (Inr b, model1, w1)
      | (Inl e, model1, w1) \<Rightarrow>
          (Inl (RuntimeError (''Failed to move model: '' @ str_exn e)), model1,
           (if path_exists (files w1) usb_dest \<and> \<not> path_exists (files w1) (path model)
            then snd (safe_move_with_verification w1 usb_dest (path model) None)
            else w1)))"

text \<open>\<open>move_model_to_usb\<close>.\<close>

definition move_model_to_usb ::
  "(string \<Rightarrow> string \<Rightarrow> bool) \<Rightarrow> ModelManager \<Rightarrow> world \<Rightarrow> string \<Rightarrow>
   (exn + bool) \<times> ModelManager \<times> world" where
  "move_model_to_usb fnmatch mgr w mname =
     (case refresh_usb_status mgr w of
        (Inl e, mgr1, w1) \<Rightarrow> (Inl e, mgr1, w1)
      | (Inr usb_status, mgr1, w1) \<Rightarrow>
        (if \<not> is_mounted usb_status
         then (Inl (RuntimeError ''USB not properly mounted''), mgr1, w1)
         else if \<not> is_writable usb_status
         then (Inl (RuntimeError ''USB not writable''), mgr1, w1)
         else if \<not> has_space usb_status
         then (Inl (RuntimeError ''USB insufficient space''), mgr1, w1)
         else
         (case get_model_by_name mgr1 mname of
            None \<Rightarrow> (Inl (ValueError ''Model not found''), mgr1, w1)
          | Some model \<Rightarrow>
            (if is_symlink model
             then (Inl (ValueError ''Model is already on USB''), mgr1, w1)
             else
             (case make_publisher_dir mgr1 w1 model of
                Inl e \<Rightarrow> (Inl e, mgr1, w1)
              | Inr w2 \<Rightarrow>
                (let usb_dest = usb_dest_of mgr1 model
                 in if path_exists (files w2) usb_dest
                    then (Inl (FileExistsError ''Destination already exists''), mgr1, w2)
                    else if size_bytes model + MIN_FREE_SPACE_BUFFER > get_usb_space_free mgr1 w2
                    then (Inl (RuntimeError ''Insufficient USB space''), mgr1, w2)
                    else
                    (case relocate_guarded fnmatch mgr1 (estimate_copy_time w2 (mgr_usb_path mgr1))
                            model usb_dest of
                       (r, model1, w3) \<Rightarrow> (r, update_model mgr1 mname model1, w3))))))))"

text \<open>\<open>move_model_from_usb\<close>.  Lines 470--481: where the model is on the removable root.\<close>

definition usb_source_of :: "world \<Rightarrow> ModelInfo \<Rightarrow> exn + path" where
  "usb_source_of w model =
     (if is_symlink model
      then (case linked_to model of
              None \<Rightarrow> Inl (RuntimeError ''target on USB not found or broken symlink'')
            | Some t \<Rightarrow>
                (if \<not> path_exists (files w) (at_cwd w t)
                 then Inl (RuntimeError ''target on USB not found or broken symlink'')
                 else Inr (at_cwd w t)))
      else (case internal_symlink_target model of
              None \<Rightarrow> Inl (RuntimeError ''USB target directory not found'')
            | Some t \<Rightarrow>
                (if \<not> path_exists (files w) t
                 then Inl (RuntimeError ''USB target directory not found'')
                 else Inr t)))"

text \<open>Lines 497--519: the restore itself, by the kind of link, and the error wrapped.\<close>

definition restore_guarded ::
  "world \<Rightarrow> ModelInfo \<Rightarrow> path \<Rightarrow> (exn + bool) \<times> ModelInfo \<times> world" where
  "restore_guarded w model usb_source_path =
     (let wrap = (\<lambda>e. Inl (RuntimeError (''Failed to restore model from USB: '' @ str_exn e)))
      in if is_symlink model
         then (case safe_restore_from_usb w (path model) usb_source_path (path model) of
                 (Inl e, w1) \<Rightarrow> (wrap e, model, w1)
               | (Inr ok, w1) \<Rightarrow>
                   (Inr True, model\<lparr>is_symlink := False, linked_to := None\<rparr>, w1))
         else if has_internal_symlinks model
         then (case safe_restore_internal_symlinks w (path model) usb_source_path of
                 (Inl e, w1) \<Rightarrow> (wrap e, model, w1)
               | (Inr ok, w1) \<Rightarrow>
                   (Inr True,
                    model\<lparr>has_internal_symlinks := False, internal_symlink_target := None\<rparr>,
                    w1))
         else (Inr True, model, w))"

definition move_model_from_usb ::
  "ModelManager \<Rightarrow> world \<Rightarrow> string \<Rightarrow> (exn + bool) \<times> ModelManager \<times> world" where
  "move_model_from_usb mgr w mname =
     (case get_model_by_name mgr mname of
        None \<Rightarrow> (Inl (ValueError ''Model not found''), mgr, w)
      | Some model \<Rightarrow>
        (if \<not> is_symlink model \<and> \<not> has_internal_symlinks model
         then (Inl (ValueError ''Model is not on USB''), mgr, w)
         else
         (case refresh_usb_status mgr w of
            (Inl e, mgr1, w1) \<Rightarrow> (Inl e, mgr1, w1)
          | (Inr usb_status, mgr1, w1) \<Rightarrow>
            (if \<not> is_mounted usb_status
             then (Inl (RuntimeError ''USB not properly mounted''), mgr1, w1)
             else if \<not> is_writable usb_status
             then (Inl (RuntimeError ''USB not writable''), mgr1, w1)
             else
             (case usb_source_of w1 model of
                Inl e \<Rightarrow> (Inl e, mgr1, w1)
              | Inr usb_source_path \<Rightarrow>
                (if \<not> path_exists (files w1) (mgr_local_path mgr1)
                 then (Inl (FileNotFoundError ''disk_usage''), mgr1, w1)
                 else if size_bytes model + MIN_FREE_SPACE_BUFFER
                           > disk_free w1 (mgr_local_path mgr1)
                 then (Inl (RuntimeError ''Insufficient local space''), mgr1, w1)
                 else
                 (case restore_guarded (estimate_copy_time w1 (mgr_local_path mgr1))
                         model usb_source_path of
                    (r, model1, w2) \<Rightarrow> (r, update_model mgr1 mname model1, w2))))))))"

text \<open>\<open>_calculate_size\<close>: the size a scan reports for a path.\<close>

definition calculate_size :: "fsys \<Rightarrow> path \<Rightarrow> nat" where
  "calculate_size fs p =
     (case (if path_is_symlink fs p then realpath fs p else Some p) of
        None \<Rightarrow> 0
      | Some r \<Rightarrow>
          (if path_is_file fs r then size_of fs r
           else if path_is_dir fs r then tree_size fs r
           else 0))"


section \<open>Repairing links (models.py, \<open>repair_broken_symlinks\<close>)\<close>





section \<open>Notions used in the proofs\<close>

text \<open>Every prefix of the path is a directory of the file system.\<close>

definition anc_ok :: "fsys \<Rightarrow> path \<Rightarrow> bool" where
  "anc_ok fs pre = (\<forall>k. node_at fs (take k pre) = Some Dir)"



section \<open>The outcomes of the mount verification, from the environment\<close>




section \<open>Example worlds\<close>

text \<open>A Linux host with a removable volume mounted at \<open>/mnt/usb\<close>.\<close>

definition world0 :: world where
  "world0 = \<lparr>files = [([''mnt''], Dir), ([''mnt'', ''usb''], Dir), ([''home''], Dir)],
     system = ''Linux'', mount_points = [[''mnt'', ''usb'']],
     disk_free = (\<lambda>p. 1000000000), pid = 7, now = 5, cwd = [],
     io_fault = (\<lambda>x. None), garbled = False, monitor_flag = (\<lambda>c. False)\<rparr>"

text \<open>A manager that tracks a local model, a model moved as a whole and a model with linked
  files.\<close>

definition model_a :: ModelInfo where
  "model_a = \<lparr>name = ''lab/a'', path = [''home'', ''lab'', ''a''], size_bytes = 10,
     publisher = ''lab'', model_name = ''a'', is_symlink = False, linked_to = None,
     has_internal_symlinks = False, internal_symlink_target = None, mtype = ''gguf_dir''\<rparr>"

definition model_b :: ModelInfo where
  "model_b = \<lparr>name = ''lab/b'', path = [''home'', ''lab'', ''b''], size_bytes = 20,
     publisher = ''lab'', model_name = ''b'', is_symlink = True,
     linked_to = Some (Abs [''mnt'', ''usb'', ''lab'', ''b'']),
     has_internal_symlinks = False, internal_symlink_target = None, mtype = ''gguf_dir''\<rparr>"

definition model_c :: ModelInfo where
  "model_c = \<lparr>name = ''lab/c'', path = [''home'', ''lab'', ''c''], size_bytes = 30,
     publisher = ''lab'', model_name = ''c'', is_symlink = False, linked_to = None,
     has_internal_symlinks = True,
     internal_symlink_target = Some [''mnt'', ''usb'', ''lab'', ''c''], mtype = ''mlx_dir''\<rparr>"

definition config0 :: config_data where
  "config0 = \<lparr>symlink_strategy = None, file_size_threshold_mb = None,
     keep_local_patterns = None\<rparr>"

definition mgr0 :: ModelManager where
  "mgr0 = \<lparr>mgr_local_path = [''home''], mgr_usb_path = [''mnt'', ''usb''],
     mgr_config = config0,
     mgr_models = [(''lab/a'', model_a), (''lab/b'', model_b), (''lab/c'', model_c)],
     mgr_usb_verification = None\<rparr>"

text \<open>A model directory with a configuration file and two weight files, of 10 and of 3
  bytes.\<close>

definition fs_partition :: fsys where
  "fs_partition = [([''m''], Dir), ([''m'', ''config.json''], File ''{}''),
     ([''m'', ''big''], File ''0123456789''), ([''m'', ''small''], File ''abc'')]"

text \<open>A link whose recorded target is gone.\<close>

definition world_dangling :: world where
  "world_dangling = world0\<lparr>files :=
     [([''home''], Dir), ([''mnt''], Dir), ([''mnt'', ''usb''], Dir),
      ([''home'', ''m''], Symlink (Abs [''mnt'', ''usb'', ''m'']))]\<rparr>"

text \<open>Two files of exactly 1 GiB that differ in one byte, outside the three samples.\<close>

definition gib_a :: string where
  "gib_a = replicate GiB (CHR ''a'')"

definition gib_b :: string where
  "gib_b = (replicate GiB (CHR ''a''))[MiB := CHR ''b'']"

definition fs_gib :: fsys where
  "fs_gib = [([''a''], File gib_a), ([''b''], File gib_b)]"

text \<open>Two small files with the same bytes.\<close>

definition fs_small :: fsys where
  "fs_small = [([''a''], File ''abc''), ([''b''], File ''abc'')]"

text \<open>A stale file at the destination and an empty file as the source.\<close>

definition world_stale :: world where
  "world_stale = world0\<lparr>files :=
     [([''home''], Dir), ([''mnt''], Dir),
      ([''home'', ''src''], File []), ([''mnt'', ''dst''], File ''old'')]\<rparr>"

text \<open>A stale directory at the destination, a model directory as the source, and a monitor
  that reports the volume gone once the copy is done.\<close>

definition world_unplugged :: world where
  "world_unplugged = world0\<lparr>files :=
     [([''home''], Dir), ([''mnt''], Dir), ([''mnt'', ''usb''], Dir),
      ([''home'', ''m''], Dir), ([''home'', ''m'', ''w.gguf''], File ''weights''),
      ([''mnt'', ''usb'', ''m''], Dir), ([''mnt'', ''usb'', ''m'', ''old''], File ''stale'')],
     monitor_flag := (\<lambda>c. True)\<rparr>"

text \<open>The model directory of \<open>fs_partition\<close> in a world, with a manager that tracks it; with
  the default threshold of 100 MB none of its files is large enough to move.\<close>

definition world_small :: world where
  "world_small = world0\<lparr>files := fs_partition\<rparr>"

definition model_m :: ModelInfo where
  "model_m = \<lparr>name = ''m'', path = [''m''], size_bytes = 15,
     publisher = [], model_name = ''m'', is_symlink = False, linked_to = None,
     has_internal_symlinks = False, internal_symlink_target = None, mtype = ''other_dir''\<rparr>"

definition mgr_small :: ModelManager where
  "mgr_small = \<lparr>mgr_local_path = [], mgr_usb_path = [''mnt'', ''usb''],
     mgr_config = config0, mgr_models = [(''m'', model_m)], mgr_usb_verification = None\<rparr>"

text \<open>The models of \<open>mgr0\<close> on disk: \<open>a\<close> is local, and a directory of its name is already on
  the removable root.\<close>

definition world_taken :: world where
  "world_taken = world0\<lparr>files :=
     [([''home''], Dir), ([''home'', ''lab''], Dir), ([''home'', ''lab'', ''a''], Dir),
      ([''home'', ''lab'', ''a'', ''w.gguf''], File ''0123456789''),
      ([''mnt''], Dir), ([''mnt'', ''usb''], Dir), ([''mnt'', ''usb'', ''lab''], Dir),
      ([''mnt'', ''usb'', ''lab'', ''a''], Dir)]\<rparr>"

text \<open>A model that is a relative link: it resolves from its own directory, and not from
  the working directory \<open>/mnt\<close>.\<close>

definition world_relative :: world where
  "world_relative = world0\<lparr>files :=
     [([''home''], Dir), ([''home'', ''lab''], Dir), ([''home'', ''store''], Dir),
      ([''home'', ''store'', ''m''], Dir), ([''home'', ''store'', ''m'', ''w''], File ''x''),
      ([''mnt''], Dir),
      ([''home'', ''lab'', ''m''], Symlink (Rel 1 [''store'', ''m'']))],
     cwd := [''mnt'']\<rparr>"

definition model_rel :: ModelInfo where
  "model_rel = \<lparr>name = ''lab/m'', path = [''home'', ''lab'', ''m''], size_bytes = 1,
     publisher = ''lab'', model_name = ''m'', is_symlink = True,
     linked_to = Some (Rel 1 [''store'', ''m'']),
     has_internal_symlinks = False, internal_symlink_target = None, mtype = ''other_dir''\<rparr>"

definition mgr_rel :: ModelManager where
  "mgr_rel = \<lparr>mgr_local_path = [''home''], mgr_usb_path = [''mnt'', ''usb''],
     mgr_config = config0, mgr_models = [(''lab/m'', model_rel)],
     mgr_usb_verification = None\<rparr>"

text \<open>A model that is a single file of ten bytes, and the manager that tracks it.\<close>

definition world_rt :: world where
  "world_rt = world0\<lparr>files :=
     [([''home''], Dir), ([''home'', ''lab''], Dir),
      ([''home'', ''lab'', ''m.gguf''], File ''0123456789''),
      ([''mnt''], Dir), ([''mnt'', ''usb''], Dir)]\<rparr>"

definition model_f :: ModelInfo where
  "model_f = \<lparr>name = ''lab/m.gguf'', path = [''home'', ''lab'', ''m.gguf''], size_bytes = 10,
     publisher = ''lab'', model_name = ''m.gguf'', is_symlink = False, linked_to = None,
     has_internal_symlinks = False, internal_symlink_target = None,
     mtype = ''single_file''\<rparr>"

definition mgr_rt :: ModelManager where
  "mgr_rt = \<lparr>mgr_local_path = [''home''], mgr_usb_path = [''mnt'', ''usb''],
     mgr_config = config0, mgr_models = [(''lab/m.gguf'', model_f)],
     mgr_usb_verification = None\<rparr>"

text \<open>The same model once relocated: the file is on the removable root and a link is in
  its place.\<close>

definition status_ok :: USBVerificationResult where
  "status_ok = \<lparr>is_mounted = True, is_writable = True, has_space = True,
     error_message = MsgOk, mount_type = ''mount_point''\<rparr>"

definition world_rt1 :: world where
  "world_rt1 = world0\<lparr>files :=
     [([''home''], Dir), ([''home'', ''lab''], Dir),
      ([''mnt'', ''usb'', ''lab'', ''m.gguf''], File ''0123456789''),
      ([''mnt''], Dir), ([''mnt'', ''usb''], Dir), ([''mnt'', ''usb'', ''lab''], Dir),
      ([''home'', ''lab'', ''m.gguf''], Symlink (Abs [''mnt'', ''usb'', ''lab'', ''m.gguf'']))]\<rparr>"

definition mgr_rt1 :: ModelManager where
  "mgr_rt1 = mgr_rt\<lparr>mgr_models :=
       [(''lab/m.gguf'', model_f\<lparr>is_symlink := True,
           linked_to := Some (Abs [''mnt'', ''usb'', ''lab'', ''m.gguf''])\<rparr>)],
     mgr_usb_verification := Some status_ok\<rparr>"

text \<open>And once restored: the file is back; the copy of the link made as a backup is still
  there, because the clean-up asks \<open>exists()\<close> of it after its target has moved.\<close>

definition world_rt2 :: world where
  "world_rt2 = world0\<lparr>files :=
     [([''home''], Dir), ([''home'', ''lab''], Dir),
      ([''home'', ''lab'', ''m.gguf''], File ''0123456789''),
      ([''mnt''], Dir), ([''mnt'', ''usb''], Dir), ([''mnt'', ''usb'', ''lab''], Dir),
      ([''home'', ''lab'', ''m.gguf.backup_7''],
       Symlink (Abs [''mnt'', ''usb'', ''lab'', ''m.gguf'']))]\<rparr>"

definition mgr_rt2 :: ModelManager where
  "mgr_rt2 = mgr_rt\<lparr>mgr_usb_verification := Some status_ok\<rparr>"

text \<open>A model directory that holds, next to its weights, a link to a directory elsewhere.\<close>

definition world_linked :: world where
  "world_linked = world0\<lparr>files :=
     [([''home''], Dir), ([''home'', ''lab''], Dir), ([''home'', ''lab'', ''a''], Dir),
      ([''home'', ''lab'', ''a'', ''w.gguf''], File ''0123456789''),
      ([''home'', ''lab'', ''a'', ''extra''], Symlink (Abs [''home'', ''shared''])),
      ([''home'', ''shared''], Dir), ([''home'', ''shared'', ''t''], File ''ab''),
      ([''mnt''], Dir), ([''mnt'', ''usb''], Dir)]\<rparr>"

definition mgr_linked :: ModelManager where
  "mgr_linked = \<lparr>mgr_local_path = [''home''], mgr_usb_path = [''mnt'', ''usb''],
     mgr_config = config0\<lparr>symlink_strategy := Some ''directory''\<rparr>,
     mgr_models = [(''lab/a'', model_a)], mgr_usb_verification = None\<rparr>"

text \<open>The same model once relocated with the whole-directory strategy: the copy on the
  removable root holds a directory where the link was.\<close>

definition world_linked1 :: world where
  "world_linked1 = world0\<lparr>files :=
     [([''home''], Dir), ([''home'', ''lab''], Dir),
      ([''home'', ''shared''], Dir), ([''home'', ''shared'', ''t''], File ''ab''),
      ([''mnt''], Dir), ([''mnt'', ''usb''], Dir), ([''mnt'', ''usb'', ''lab''], Dir),
      ([''mnt'', ''usb'', ''lab'', ''a''], Dir),
      ([''mnt'', ''usb'', ''lab'', ''a'', ''w.gguf''], File ''0123456789''),
      ([''mnt'', ''usb'', ''lab'', ''a'', ''extra''], Dir),
      ([''mnt'', ''usb'', ''lab'', ''a'', ''extra'', ''t''], File ''ab''),
      ([''home'', ''lab'', ''a''], Symlink (Abs [''mnt'', ''usb'', ''lab'', ''a'']))]\<rparr>"

definition mgr_linked1 :: ModelManager where
  "mgr_linked1 = mgr_linked\<lparr>mgr_models :=
       [(''lab/a'', model_a\<lparr>is_symlink := True,
           linked_to := Some (Abs [''mnt'', ''usb'', ''lab'', ''a''])\<rparr>)],
     mgr_usb_verification := Some status_ok\<rparr>"

text \<open>The same model once restored: the local copy holds a directory where the link was,
  and the backup link of the restore is still beside it.\<close>

definition world_linked2 :: world where
  "world_linked2 = world0\<lparr>files :=
     [([''home''], Dir), ([''home'', ''lab''], Dir),
      ([''home'', ''shared''], Dir), ([''home'', ''shared'', ''t''], File ''ab''),
      ([''mnt''], Dir), ([''mnt'', ''usb''], Dir), ([''mnt'', ''usb'', ''lab''], Dir),
      ([''home'', ''lab'', ''a''], Dir),
      ([''home'', ''lab'', ''a'', ''w.gguf''], File ''0123456789''),
      ([''home'', ''lab'', ''a'', ''extra''], Dir),
      ([''home'', ''lab'', ''a'', ''extra'', ''t''], File ''ab''),
      ([''home'', ''lab'', ''a.backup_7''], Symlink (Abs [''mnt'', ''usb'', ''lab'', ''a'']))]\<rparr>"

definition mgr_linked2 :: ModelManager where
  "mgr_linked2 = mgr_linked\<lparr>mgr_usb_verification := Some status_ok\<rparr>"








section \<open>Facts about the file system\<close>

lemma st_size_file: "path_is_file fs f \<Longrightarrow> \<exists>sz. st_size fs f = Inr sz"
  by (auto simp: path_is_file_def st_size_def split: option.splits node.splits)

lemma stat_file_facts:
  "stat fs p = Some (File b) \<Longrightarrow>
     path_exists fs p \<and> st_size fs p = Inr (length b) \<and> read_file fs p = Inr b"
  by (simp add: path_exists_def st_size_def read_file_def)

text \<open>The definitions to unfold when a call is evaluated on a concrete file system.\<close>

lemmas fs_eval = path_exists_def path_is_file_def path_is_dir_def path_is_symlink_def stat_def
  lstat_def lpath_def realpath_def node_at_def st_size_def size_of_def path_name_def
  path_parent_def with_suffix_def remove_entry_def put_entry_def

lemma str_nat_7: "str_nat 7 = ''7''"
  by (simp add: str_nat.simps)

lemma str_nat_5: "str_nat 5 = ''5''"
  by (simp add: str_nat.simps)

lemmas probe_eval = verify_usb_mounted_def verify_usb_mounted_try_def detect_mount_def
  ismount_def write_probe_def probe_file_def write_file_def wtarget.simps read_file_def
  unlink_def str_nat_7 str_nat_5 Let_def

lemmas move_eval = safe_move_with_verification_def smv_body_def smv_recover_def
  monitored_move_def shutil_move_def rename_entry_def verify_moved_def remove_path_def
  backup_suffix_def GiB_def MiB_def symlink_to_def check_symlink_health_def readlink_def
  at_cwd_def from_dir_def mkdir_def

lemmas tree_eval = copytree_def mkdir_parents_def copy_nodes.simps rmtree_def tree_size_def
  rglob_def below_def

section \<open>Facts about path resolution\<close>

lemma anc_ok_Nil: "anc_ok fs []"
  by (simp add: anc_ok_def node_at_def)

lemma anc_ok_take: "anc_ok fs pre \<Longrightarrow> anc_ok fs (take j pre)"
  by (simp add: anc_ok_def)

lemma anc_ok_snoc: "anc_ok fs pre \<Longrightarrow> map_of fs (pre @ [c]) = Some Dir \<Longrightarrow> anc_ok fs (pre @ [c])"
  unfolding anc_ok_def
proof
  fix k
  assume a: "\<forall>k. node_at fs (take k pre) = Some Dir" and d: "map_of fs (pre @ [c]) = Some Dir"
  show "node_at fs (take k (pre @ [c])) = Some Dir"
  proof (cases "k \<le> length pre")
    case True
    then show ?thesis using a by simp
  next
    case False
    then show ?thesis using d by (simp add: node_at_def)
  qed
qed

lemma anc_ok_self: "anc_ok fs pre \<Longrightarrow> node_at fs pre = Some Dir"
  unfolding anc_ok_def using take_all [of pre "length pre"] by (metis order_refl)

lemma walk_parent_dir:
  assumes "walk n fs pre ys = Some r" and "ys = cs @ [x]" and "anc_ok fs pre"
  shows "\<exists>q m. walk n fs pre cs = Some q \<and> anc_ok fs q \<and> m \<le> n \<and> walk m fs q [x] = Some r"
  using assms
proof (induction n fs pre ys arbitrary: cs rule: walk.induct)
  case (1 n fs pre)
  then show ?case by simp
next
  case (2 n fs pre c cs')
  have w0: "walk n fs pre (c # cs') = Some r"
    using "2.prems"(1) by (simp only: "2.prems"(2) [symmetric])
  show ?case
  proof (cases cs)
    case Nil
    with "2.prems" have "c = x" and "cs' = []" by auto
    with w0 have w: "walk n fs pre [x] = Some r" by simp
    have a: "walk n fs pre cs = Some pre" using Nil by simp
    from a w "2.prems"(3) show ?thesis by blast
  next
    case (Cons c2 cs2)
    with "2.prems" have c: "c2 = c" and cs': "cs' = cs2 @ [x]" by auto
    show ?thesis
    proof (cases "map_of fs (pre @ [c])")
      case None
      with w0 show ?thesis by simp
    next
      case (Some nd)
      show ?thesis
      proof (cases nd)
        case (File b)
        with Some w0 cs' show ?thesis by simp
      next
        case Dir
        with Some w0 have w: "walk n fs (pre @ [c]) cs' = Some r" by simp
        from "2.IH"(1) [OF Some Dir w cs' anc_ok_snoc [OF "2.prems"(3)]] Some Dir
        obtain q m' where q: "walk n fs (pre @ [c]) cs2 = Some q" "anc_ok fs q" "m' \<le> n"
          "walk m' fs q [x] = Some r" by blast
        have a: "walk n fs pre cs = Some q"
          using q(1) Cons c Some Dir by simp
        from a q(2,3,4) show ?thesis by blast
      next
        case (Symlink t)
        show ?thesis
        proof (cases n)
          case 0
          with Some Symlink w0 show ?thesis by simp
        next
          case (Suc m)
          show ?thesis
          proof (cases t)
            case (Abs tp)
            with Some Symlink Suc w0 have w: "walk m fs [] (tp @ cs') = Some r" by simp
            have e: "tp @ cs' = (tp @ cs2) @ [x]" using cs' by simp
            from "2.IH"(2) [OF Some Symlink Suc Abs w e anc_ok_Nil]
            obtain q m' where q: "walk m fs [] (tp @ cs2) = Some q" "anc_ok fs q" "m' \<le> m"
              "walk m' fs q [x] = Some r" by blast
            have a: "walk n fs pre cs = Some q"
              using q(1) Cons c Some Symlink Suc Abs by simp
            have b: "m' \<le> n" using q(3) Suc by simp
            from a b q(2,4) show ?thesis by blast
          next
            case (Rel u tp)
            with Some Symlink Suc w0
            have w: "walk m fs (take (length pre - u) pre) (tp @ cs') = Some r" by simp
            have e: "tp @ cs' = (tp @ cs2) @ [x]" using cs' by simp
            from "2.IH"(3) [OF Some Symlink Suc Rel w e anc_ok_take [OF "2.prems"(3)]]
            obtain q m' where q: "walk m fs (take (length pre - u) pre) (tp @ cs2) = Some q"
              "anc_ok fs q" "m' \<le> m" "walk m' fs q [x] = Some r" by blast
            have a: "walk n fs pre cs = Some q"
              using q(1) Cons c Some Symlink Suc Rel by simp
            have b: "m' \<le> n" using q(3) Suc by simp
            from a b q(2,4) show ?thesis by blast
          qed
        qed
      qed
    qed
  qed
qed


lemma map_of_snoc:
  "map_of (fs @ [(q, nd)]) k = (case map_of fs k of None \<Rightarrow> (if k = q then Some nd else None) | Some v \<Rightarrow> Some v)"
  by (induction fs) auto

lemma remove_absent: "map_of fs q = None \<Longrightarrow> remove_entry fs q = fs"
  by (induction fs) (auto simp: remove_entry_def split: if_splits)

lemma walk_extend:
  assumes "map_of fs q = None"
  shows "walk n fs pre cs = Some r \<Longrightarrow> walk n (fs @ [(q, nd)]) pre cs = Some r"
  using assms
  by (induction n fs pre cs rule: walk.induct)
     (auto simp: map_of_snoc split: option.splits node.splits nat.splits link_target.splits
       if_splits)


lemma exists_parent:
  assumes "path_exists fs (d @ [x])"
  shows "\<exists>q. realpath fs d = Some q \<and> node_at fs q = Some Dir \<and> map_of fs (q @ [x]) \<noteq> None"
proof -
  from assms obtain r where r: "walk 40 fs [] (d @ [x]) = Some r"
    by (auto simp: path_exists_def stat_def realpath_def split: option.splits)
  from walk_parent_dir [OF r refl anc_ok_Nil]
  obtain q m where q: "walk 40 fs [] d = Some q" "anc_ok fs q" "walk m fs q [x] = Some r"
    by blast
  from q(3) have "map_of fs (q @ [x]) \<noteq> None" by (auto split: option.splits)
  with q(1) anc_ok_self [OF q(2)] show ?thesis by (simp add: realpath_def)
qed

lemma exists_parent_dir: "path_exists fs (d @ [x]) \<Longrightarrow> path_is_dir fs d"
  using exists_parent [of fs d x] by (auto simp: path_is_dir_def stat_def)

lemma lpath_exists:
  assumes "path_exists fs p" and "p \<noteq> []"
  shows "\<exists>q. lpath fs p = Some q \<and> q \<noteq> [] \<and> map_of fs q \<noteq> None"
proof -
  from assms(2) have p: "p = butlast p @ [last p]" by simp
  from exists_parent [of fs "butlast p" "last p"] assms(1) p
  obtain q where "realpath fs (butlast p) = Some q" "node_at fs q = Some Dir"
    "map_of fs (q @ [last p]) \<noteq> None" by auto
  with assms(2) show ?thesis by (simp add: lpath_def)
qed

lemma mkdir_existing_dir:
  assumes "path_is_dir fs p"
  shows "mkdir fs p = Inr fs"
proof (cases "p = []")
  case True
  with assms show ?thesis by (simp add: mkdir_def lpath_def node_at_def)
next
  case False
  from assms have "path_exists fs p"
    by (auto simp: path_is_dir_def path_exists_def split: option.splits)
  from lpath_exists [OF this False] obtain q where "lpath fs p = Some q" "q \<noteq> []"
    "map_of fs q \<noteq> None" by blast
  with assms show ?thesis by (auto simp: mkdir_def node_at_def)
qed

lemma write_then_unlink:
  assumes "lstat fs p = None" and "p \<noteq> []"
    and "write_file fs p b = Inr fs1" and "unlink fs1 p = Inr fs2"
  shows "fs2 = fs"
proof -
  from assms(3) obtain q where wt: "wtarget 40 fs p = Some q" and fs1: "fs1 = put_entry fs q (File b)"
    by (auto simp: write_file_def split: option.splits)
  from wt assms(1) have lp: "lpath fs p = Some q" and nq: "node_at fs q = None"
    by (auto simp: lstat_def split: option.splits)
  from lp assms(2) obtain d where d: "realpath fs (butlast p) = Some d" "node_at fs d = Some Dir"
    "q = d @ [last p]"
    by (auto simp: lpath_def split: option.splits if_splits)
  from nq d(3) have mq: "map_of fs q = None" by (simp add: node_at_def)
  have fs1': "fs1 = fs @ [(q, File b)]"
    using fs1 mq by (simp add: put_entry_def remove_absent)
  have "realpath fs1 (butlast p) = Some d"
    using walk_extend [OF mq] d(1) by (simp add: realpath_def fs1')
  moreover have "node_at fs1 d = Some Dir"
    using d(2) by (auto simp: node_at_def fs1' map_of_snoc split: if_splits)
  ultimately have lp1: "lpath fs1 p = Some q"
    using assms(2) d(3) by (simp add: lpath_def)
  have n1: "node_at fs1 q = Some (File b)"
    using mq d(3) by (simp add: node_at_def fs1' map_of_snoc del: map_of_append)
  from assms(4) lp1 n1 have "fs2 = remove_entry fs1 q"
    by (simp add: unlink_def)
  also have "\<dots> = fs"
    using remove_absent [OF mq] by (simp add: fs1' remove_entry_def)
  finally show ?thesis .
qed









section \<open>Rollback of a failed move\<close>

text \<open>The error \<open>safe_move_with_verification\<close> raises is the one its body raised.\<close>

lemma safe_move_error_is_original:
  "smv_body w source destination None = (Some e, backup_path, w2) \<Longrightarrow>
   fst (safe_move_with_verification w source destination None) = Inl e"
  by (simp add: safe_move_with_verification_def)

text \<open>
  Claim C1 says that after a failure the backup of the pre-existing destination is back
  at the destination path.  In \<open>world_stale\<close> the destination \<open>/mnt/dst\<close> holds \<open>old\<close> and the
  source \<open>/home/src\<close> is an empty file: the destination is renamed aside, the source is
  moved, the verification fails on the empty file, the handler deletes the destination
  and then moves the backup to the source path.  The error is the one of the
  verification; the destination path is left empty and \<open>old\<close> is at \<open>/home/src\<close>.
\<close>

theorem safe_move_rollback_misplaces_backup:
  "safe_move_with_verification world_stale [''home'', ''src''] [''mnt'', ''dst''] None =
     (Inl (ValueError ''Destination file is empty or doesn't exist''),
      world_stale\<lparr>files :=
        [([''home''], Dir), ([''mnt''], Dir), ([''home'', ''src''], File ''old'')]\<rparr>)"
  by (simp add: safe_move_with_verification_def smv_body_def smv_recover_def world_stale_def
      world0_def fs_eval backup_suffix_def str_nat_7 shutil_move_def rename_entry_def
      Let_def verify_moved_def unlink_def remove_path_def GiB_def)

section \<open>Movable models and models on the removable root\<close>

text \<open>
  Claim C10.  In every state of the manager the movable models and the models on the
  removable root partition the tracked models: each tracked model is in exactly one of
  the two lists, a model is movable if and only if it is neither a whole-directory link
  nor carries per-file links, and the two lists are disjoint.
\<close>

theorem movable_usb_partition:
  "mset (get_movable_models mgr) + mset (get_usb_models mgr) = mset (model_values mgr) \<and>
   set (get_movable_models mgr) \<inter> set (get_usb_models mgr) = {} \<and>
   (\<forall>model \<in> set (model_values mgr).
      (model \<in> set (get_movable_models mgr) \<longleftrightarrow>
         \<not> is_symlink model \<and> \<not> has_internal_symlinks model) \<and>
      (model \<in> set (get_usb_models mgr) \<longleftrightarrow> model \<notin> set (get_movable_models mgr)))"
proof -
  have "mset (get_movable_models mgr) + mset (get_usb_models mgr) = mset (model_values mgr)"
    unfolding get_movable_models_def get_usb_models_def
    by (induction "model_values mgr") auto
  moreover have "set (get_movable_models mgr) \<inter> set (get_usb_models mgr) = {}"
    by (auto simp: get_movable_models_def get_usb_models_def)
  ultimately show ?thesis
    by (auto simp: get_movable_models_def get_usb_models_def)
qed

text \<open>The theorem at \<open>mgr0\<close>: one movable model, two on the removable root.\<close>

theorem movable_usb_partition_witness:
  "get_movable_models mgr0 = [model_a] \<and> get_usb_models mgr0 = [model_b, model_c] \<and>
   mset [model_a] + mset [model_b, model_c] = mset (model_values mgr0)"
proof -
  have a: "get_movable_models mgr0 = [model_a]"
    by (simp add: get_movable_models_def model_values_def mgr0_def model_a_def model_b_def
        model_c_def)
  have b: "get_usb_models mgr0 = [model_b, model_c]"
    by (simp add: get_usb_models_def model_values_def mgr0_def model_a_def model_b_def
        model_c_def)
  from movable_usb_partition [of mgr0] a b show ?thesis by simp
qed


section \<open>Integrity check: the threshold between digest and samples\<close>

text \<open>
  Claim C2, as amended.  For every two regular files, \<open>verify_file_integrity\<close> returns false
  when their sizes differ; when the sizes are equal and at most 1 GiB (1 GiB included) it
  compares the full digests of the two contents; when the size is strictly above 1 GiB it
  compares the three samples of 1 MiB (first, middle, last).
\<close>

theorem verify_file_integrity_thresholds:
  assumes "stat fs source = Some (File sb)" and "stat fs destination = Some (File db)"
  shows "verify_file_integrity md5 fs source destination =
     Inr (if length sb \<noteq> length db then False
          else if length sb \<le> GiB then md5 sb = md5 db
          else three_samples_agree sb db)"
proof -
  note s = stat_file_facts [OF assms(1)] and d = stat_file_facts [OF assms(2)]
  show ?thesis
  proof (cases "length sb = length db")
    case False
    with s d show ?thesis by (simp add: verify_file_integrity_def)
  next
    case True
    show ?thesis
    proof (cases "length sb \<le> GiB")
      case le: True
      with True s d show ?thesis
        by (simp add: verify_file_integrity_def calculate_checksum_def)
    next
      case gt: False
      then have big: "MiB \<le> length sb" by (simp add: GiB_def MiB_def)
      have "verify_large_file fs source destination = three_samples_agree sb db"
        using s d True big
        by (auto simp: verify_large_file_def three_samples_agree_def Let_def)
      with True gt s d show ?thesis
        by (simp add: verify_file_integrity_def)
    qed
  qed
qed

text \<open>The theorem at two files of three equal bytes: the digests agree.\<close>

theorem verify_file_integrity_thresholds_witness:
  "stat fs_small [''a''] = Some (File ''abc'') \<and> stat fs_small [''b''] = Some (File ''abc'') \<and>
   verify_file_integrity (\<lambda>b. b) fs_small [''a''] [''b''] = Inr True"
proof -
  have a: "stat fs_small [''a''] = Some (File ''abc'')"
    and b: "stat fs_small [''b''] = Some (File ''abc'')"
    by (simp_all add: stat_def realpath_def node_at_def fs_small_def)
  from verify_file_integrity_thresholds [OF a b, of "\<lambda>b. b"] a b
  show ?thesis by (simp add: GiB_def)
qed

lemma gib_lengths: "length gib_a = GiB" "length gib_b = GiB"
  by (simp_all add: gib_a_def gib_b_def)

lemma gib_differ: "gib_a \<noteq> gib_b"
proof
  assume "gib_a = gib_b"
  then have "gib_a ! MiB = gib_b ! MiB" by simp
  then show False by (simp add: gib_a_def gib_b_def GiB_def MiB_def)
qed

lemma gib_samples: "three_samples_agree gib_a gib_b"
  unfolding three_samples_agree_def gib_lengths
  by (simp add: gib_a_def gib_b_def GiB_def MiB_def take_update_cancel drop_update_cancel)

text \<open>
  Claim C2 as stated says that at 1 GiB and above only the three samples are compared.
  At exactly 1 GiB the code compares the digests: \<open>gib_a\<close> and \<open>gib_b\<close> agree on the three
  samples and differ in one byte, and with a digest that tells them apart (here the
  content itself) the result is false.
\<close>

theorem verify_file_integrity_boundary_counterexample:
  "\<not> (\<forall>md5 fs source destination sb db.
        stat fs source = Some (File sb) \<longrightarrow> stat fs destination = Some (File db) \<longrightarrow>
        length sb = length db \<longrightarrow> GiB \<le> length sb \<longrightarrow>
        verify_file_integrity md5 fs source destination = Inr (three_samples_agree sb db))"
proof
  assume h: "\<forall>md5 fs source destination sb db.
        stat fs source = Some (File sb) \<longrightarrow> stat fs destination = Some (File db) \<longrightarrow>
        length sb = length db \<longrightarrow> GiB \<le> length sb \<longrightarrow>
        verify_file_integrity md5 fs source destination = Inr (three_samples_agree sb db)"
  have a: "stat fs_gib [''a''] = Some (File gib_a)"
    and b: "stat fs_gib [''b''] = Some (File gib_b)"
    by (simp_all add: stat_def realpath_def node_at_def fs_gib_def)
  from h a b gib_lengths
  have "verify_file_integrity (\<lambda>b. b) fs_gib [''a''] [''b''] = Inr (three_samples_agree gib_a gib_b)"
    by (metis order_refl)
  moreover have "verify_file_integrity (\<lambda>b. b) fs_gib [''a''] [''b''] = Inr (gib_a = gib_b)"
    using verify_file_integrity_thresholds [OF a b, of "\<lambda>b. b"] gib_lengths by simp
  ultimately show False
    using gib_differ gib_samples by simp
qed


section \<open>The per-file partition\<close>

lemma partition_files_filter:
  "\<forall>f \<in> set fl. path_is_file fs f \<Longrightarrow>
   partition_files fnmatch fs pats thr fl acc =
     Inr (fst acc @ filter (\<lambda>f. \<not> should_keep_local fnmatch f pats \<and>
                               (\<exists>sz. st_size fs f = Inr sz \<and> thr \<le> int sz)) fl,
          snd acc @ filter (\<lambda>f. \<not> (\<not> should_keep_local fnmatch f pats \<and>
                               (\<exists>sz. st_size fs f = Inr sz \<and> thr \<le> int sz))) fl)"
proof (induction fl arbitrary: acc)
  case Nil
  then show ?case by simp
next
  case (Cons f fl)
  from Cons.prems obtain b where b: "st_size fs f = Inr b"
    using st_size_file [of fs f] by auto
  from Cons.prems have rest: "\<forall>f \<in> set fl. path_is_file fs f" by simp
  show ?case
    using Cons.IH [OF rest] b by simp
qed

lemma should_keep_local_iff:
  "should_keep_local fnmatch f pats \<longleftrightarrow> (\<exists>pattern \<in> set pats. fnmatch (path_name f) pattern)"
  by (induction pats) auto

text \<open>
  Claim C3.  For every file below a directory entry, the partition of the per-file
  strategy returns its two lists, and: the file is kept local exactly when its name
  matches one of the keep-local patterns, whatever its size; otherwise it is in the move
  list if and only if its size is at or above the threshold (the bound is inclusive),
  and in the keep list if and only if it is not in the move list.
\<close>

theorem per_file_partition:
  "\<exists>files_to_move files_to_keep.
     partition_files fnmatch fs keep_patterns size_threshold (all_files_of fs model_path) ([], [])
       = Inr (files_to_move, files_to_keep) \<and>
     (\<forall>file_path \<in> set (all_files_of fs model_path).
        (should_keep_local fnmatch file_path keep_patterns \<longleftrightarrow>
           (\<exists>pattern \<in> set keep_patterns. fnmatch (path_name file_path) pattern)) \<and>
        (should_keep_local fnmatch file_path keep_patterns \<longrightarrow>
           file_path \<in> set files_to_keep \<and> file_path \<notin> set files_to_move) \<and>
        (\<not> should_keep_local fnmatch file_path keep_patterns \<longrightarrow>
           (file_path \<in> set files_to_move \<longleftrightarrow>
              (\<exists>sz. st_size fs file_path = Inr sz \<and> size_threshold \<le> int sz)) \<and>
           (file_path \<in> set files_to_keep \<longleftrightarrow> file_path \<notin> set files_to_move)))"
proof -
  have files: "\<forall>f \<in> set (all_files_of fs model_path). path_is_file fs f"
    by (simp add: all_files_of_def)
  show ?thesis
    unfolding partition_files_filter [OF files]
    by (auto simp: should_keep_local_iff)
qed


lemma all_files_partition:
  "all_files_of fs_partition [''m''] = [[''m'', ''config.json''], [''m'', ''big''], [''m'', ''small'']]"
  by (simp add: all_files_of_def rglob_def realpath_def node_at_def fs_partition_def below_def
      path_is_file_def stat_def)

text \<open>The theorem at \<open>fs_partition\<close> with the threshold 10: the file of exactly 10 bytes
  moves, the matching file and the file of 3 bytes stay.\<close>

theorem per_file_partition_witness:
  "partition_files (\<lambda>nm pat. pat = ''*.json'' \<and> nm = ''config.json'') fs_partition
      [''*.json''] 10 (all_files_of fs_partition [''m'']) ([], [])
     = Inr ([[''m'', ''big'']], [[''m'', ''config.json''], [''m'', ''small'']]) \<and>
   st_size fs_partition [''m'', ''big''] = Inr 10 \<and>
   [''m'', ''big''] \<in> set (all_files_of fs_partition [''m''])"
proof -
  have sz: "st_size fs_partition [''m'', ''big''] = Inr 10"
    "st_size fs_partition [''m'', ''small''] = Inr 3"
    by (simp_all add: st_size_def stat_def realpath_def node_at_def fs_partition_def)
  have p: "partition_files (\<lambda>nm pat. pat = ''*.json'' \<and> nm = ''config.json'') fs_partition
      [''*.json''] 10 (all_files_of fs_partition [''m'']) ([], [])
     = Inr ([[''m'', ''big'']], [[''m'', ''config.json''], [''m'', ''small'']])"
    by (simp add: all_files_partition sz path_name_def)
  from per_file_partition [of "\<lambda>nm pat. pat = ''*.json'' \<and> nm = ''config.json''"
      fs_partition "[''*.json'']" 10 "[''m'']"] p sz
  show ?thesis by (simp add: all_files_partition)
qed

section \<open>An existing destination\<close>

lemma verify_healthy_probe:
  assumes "verify_usb_mounted w p m = (Inr st, w1)"
    and "is_mounted st" and "is_writable st" and "has_space st"
  shows "\<exists>x. write_probe w p m = (Inr x, w1)"
proof (cases "write_probe w p m")
  case (Pair pr w2)
  show ?thesis
  proof (cases pr)
    case (Inl e)
    with Pair assms show ?thesis
      by (auto simp: verify_usb_mounted_def verify_usb_mounted_try_def Let_def
          split: option.splits if_splits)
  next
    case (Inr x)
    with Pair assms show ?thesis
      by (auto simp: verify_usb_mounted_def verify_usb_mounted_try_def Let_def
          split: option.splits if_splits prod.splits)
  qed
qed

lemma write_probe_clean:
  assumes "write_probe w p m = (Inr x, w1)"
    and "lstat (files w) (probe_file w p) = None"
  shows "w1 = w"
proof -
  have ne: "probe_file w p \<noteq> []" by (simp add: probe_file_def)
  from assms(1) obtain fs1 fs2 where
    "write_file (files w) (probe_file w p) (''LLM_MOVER_TEST_'' @ str_nat (now w)) = Inr fs1"
    "unlink fs1 (probe_file w p) = Inr fs2" "w1 = w\<lparr>files := fs2\<rparr>"
    by (auto simp: write_probe_def Let_def split: option.splits sum.splits if_splits)
  with write_then_unlink [OF assms(2) ne] show ?thesis by simp
qed

text \<open>
  Claim C4.  For every relocate call that passes the pre-flight check and finds its model,
  not yet linked, if the computed destination exists then the call fails with the
  destination-exists error: no transfer is started, the models are as before, and the
  world is the one the pre-flight check left.  That check leaves the world as it found
  it when no earlier probe file lies on the removable root, so the source entry is
  untouched.
\<close>

theorem destination_exists_fails:
  assumes "verify_usb_mounted w (mgr_usb_path mgr) (1024 * 1024 * 100) = (Inr st, w1)"
    and "is_mounted st" and "is_writable st" and "has_space st"
    and "get_model_by_name mgr mname = Some model" and "\<not> is_symlink model"
    and "path_exists (files w1) (usb_dest_of mgr model)"
  shows "move_model_to_usb fnmatch mgr w mname =
           (Inl (FileExistsError ''Destination already exists''),
            mgr\<lparr>mgr_usb_verification := Some st\<rparr>, w1) \<and>
         (lstat (files w) (probe_file w (mgr_usb_path mgr)) = None \<longrightarrow> w1 = w)"
proof -
  let ?mgr1 = "mgr\<lparr>mgr_usb_verification := Some st\<rparr>"
  have r: "refresh_usb_status mgr w = (Inr st, ?mgr1, w1)"
    using assms(1) by (simp add: refresh_usb_status_def)
  have g: "get_model_by_name ?mgr1 mname = Some model"
    using assms(5) by (simp add: get_model_by_name_def)
  have d: "usb_dest_of ?mgr1 model = usb_dest_of mgr model"
    by (simp add: usb_dest_of_def)
  have p: "make_publisher_dir ?mgr1 w1 model = Inr w1"
  proof (cases "publisher model = []")
    case True
    then show ?thesis by (simp add: make_publisher_dir_def)
  next
    case False
    with assms(7) have "path_exists (files w1) ((mgr_usb_path mgr @ [publisher model]) @ [model_name model])"
      by (simp add: usb_dest_of_def)
    then have "path_is_dir (files w1) (mgr_usb_path mgr @ [publisher model])"
      by (rule exists_parent_dir)
    then show ?thesis using False
      by (simp add: make_publisher_dir_def mkdir_existing_dir)
  qed
  have a: "move_model_to_usb fnmatch mgr w mname =
           (Inl (FileExistsError ''Destination already exists''), ?mgr1, w1)"
    using r g d p assms(2,3,4,6,7)
    by (simp add: move_model_to_usb_def Let_def)
  from verify_healthy_probe [OF assms(1-4)] obtain x
    where "write_probe w (mgr_usb_path mgr) (1024 * 1024 * 100) = (Inr x, w1)" by blast
  then have "lstat (files w) (probe_file w (mgr_usb_path mgr)) = None \<longrightarrow> w1 = w"
    using write_probe_clean by blast
  with a show ?thesis by simp
qed

lemma verify_world_taken:
  "verify_usb_mounted world_taken [''mnt'', ''usb''] (1024 * 1024 * 100) =
     (Inr \<lparr>is_mounted = True, is_writable = True, has_space = True,
            error_message = MsgOk, mount_type = ''mount_point''\<rparr>, world_taken)"
  by (simp add: verify_usb_mounted_def verify_usb_mounted_try_def detect_mount_def ismount_def
      write_probe_def probe_file_def write_file_def wtarget.simps read_file_def unlink_def
      world_taken_def world0_def fs_eval str_nat_7 str_nat_5 Let_def)

text \<open>The theorem at \<open>world_taken\<close>, where \<open>/mnt/usb/lab/a\<close> already exists.\<close>

theorem destination_exists_fails_witness:
  "move_model_to_usb (\<lambda>nm pat. False) mgr0 world_taken ''lab/a'' =
     (Inl (FileExistsError ''Destination already exists''),
      mgr0\<lparr>mgr_usb_verification := Some \<lparr>is_mounted = True, is_writable = True,
        has_space = True, error_message = MsgOk, mount_type = ''mount_point''\<rparr>\<rparr>,
      world_taken) \<and>
   path_exists (files world_taken) (usb_dest_of mgr0 model_a) \<and>
   get_model_by_name mgr0 ''lab/a'' = Some model_a"
proof -
  have v: "verify_usb_mounted world_taken (mgr_usb_path mgr0) (1024 * 1024 * 100) =
     (Inr \<lparr>is_mounted = True, is_writable = True, has_space = True,
            error_message = MsgOk, mount_type = ''mount_point''\<rparr>, world_taken)"
    using verify_world_taken by (simp add: mgr0_def)
  have g: "get_model_by_name mgr0 ''lab/a'' = Some model_a"
    by (simp add: get_model_by_name_def mgr0_def)
  have s: "\<not> is_symlink model_a" by (simp add: model_a_def)
  have e: "path_exists (files world_taken) (usb_dest_of mgr0 model_a)"
    by (simp add: usb_dest_of_def mgr0_def model_a_def world_taken_def fs_eval)
  from destination_exists_fails [OF v _ _ _ g s e, of "\<lambda>nm pat. False"] g e
  show ?thesis by simp
qed

section \<open>The per-file strategy with nothing to move\<close>

text \<open>
  Claim C5.  For a directory entry relocated with the per-file strategy, if every
  contained file matches a keep-local pattern or is below the size threshold, the
  operation fails with the no-eligible-files error, and the model and the world (so every
  file and link) are as before; the same holds for the guarded call of
  \<open>move_model_to_usb\<close>, which wraps the error.
\<close>

theorem no_eligible_files_fails:
  assumes "path_is_dir (files w) (path model)"
    and "\<forall>file_path \<in> set (all_files_of (files w) (path model)).
           should_keep_local fnmatch file_path (get_keep_local_patterns (mgr_config mgr)) \<or>
           (\<exists>sz. st_size (files w) file_path = Inr sz \<and>
                 int sz < get_file_size_threshold_bytes (mgr_config mgr))"
  shows "move_with_file_symlinks fnmatch mgr w model usb_dest = (Inl no_eligible_files, model, w) \<and>
         (determine_symlink_strategy mgr w model = ''file'' \<longrightarrow>
            relocate_guarded fnmatch mgr w model usb_dest =
              (Inl (RuntimeError (''Failed to move model: '' @ str_exn no_eligible_files)),
               model, w))"
proof -
  have files: "\<forall>f \<in> set (all_files_of (files w) (path model)). path_is_file (files w) f"
    by (simp add: all_files_of_def)
  have none: "filter (\<lambda>f. \<not> should_keep_local fnmatch f (get_keep_local_patterns (mgr_config mgr)) \<and>
        (\<exists>sz. st_size (files w) f = Inr sz \<and> get_file_size_threshold_bytes (mgr_config mgr) \<le> int sz))
      (all_files_of (files w) (path model)) = []"
    using assms(2) by (auto simp: filter_empty_conv)
  have a: "move_with_file_symlinks fnmatch mgr w model usb_dest = (Inl no_eligible_files, model, w)"
    using assms(1)
    by (simp add: move_with_file_symlinks_def Let_def partition_files_filter [OF files] none)
  from assms(1) have "path_exists (files w) (path model)"
    by (auto simp: path_is_dir_def path_exists_def split: option.splits)
  with a show ?thesis
    by (simp add: relocate_guarded_def)
qed

text \<open>The theorem at the model directory of \<open>world_small\<close>, whose files are all below the
  default threshold.\<close>

theorem no_eligible_files_fails_witness:
  "path_is_dir (files world_small) (path model_m) \<and>
   move_with_file_symlinks (\<lambda>nm pat. False) mgr_small world_small model_m [''mnt'', ''usb'', ''m'']
     = (Inl no_eligible_files, model_m, world_small)"
proof -
  have d: "path_is_dir (files world_small) (path model_m)"
    by (simp add: world_small_def model_m_def fs_partition_def path_is_dir_def stat_def
        realpath_def node_at_def)
  have p: "path model_m = [''m'']" "files world_small = fs_partition"
    by (simp_all add: model_m_def world_small_def)
  have sz: "st_size fs_partition [''m'', ''config.json''] = Inr 2"
    "st_size fs_partition [''m'', ''big''] = Inr 10"
    "st_size fs_partition [''m'', ''small''] = Inr 3"
    by (simp_all add: st_size_def stat_def realpath_def node_at_def fs_partition_def)
  have t: "get_file_size_threshold_bytes (mgr_config mgr_small) = 104857600"
    by (simp add: get_file_size_threshold_bytes_def mgr_small_def config0_def)
  have small: "\<forall>file_path \<in> set (all_files_of (files world_small) (path model_m)).
           should_keep_local (\<lambda>nm pat. False) file_path
             (get_keep_local_patterns (mgr_config mgr_small)) \<or>
           (\<exists>sz. st_size (files world_small) file_path = Inr sz \<and>
                 int sz < get_file_size_threshold_bytes (mgr_config mgr_small))"
    by (simp add: p all_files_partition sz t)
  from no_eligible_files_fails [OF d small, of "[''mnt'', ''usb'', ''m'']"] d
  show ?thesis by simp
qed

section \<open>The size of an entry after a round trip\<close>

lemma get_update_model:
  "get_model_by_name mgr n = Some m \<Longrightarrow> get_model_by_name (update_model mgr n m') n = Some m'"
proof -
  have "map_of xs n = Some m \<Longrightarrow>
        map_of (map (\<lambda>(k, v). if k = n then (k, m') else (k, v)) xs) n = Some m'" for xs
    by (induction xs) (auto split: if_splits)
  then show "get_model_by_name mgr n = Some m \<Longrightarrow> ?thesis"
    by (simp add: get_model_by_name_def update_model_def)
qed

lemma move_with_directory_symlink_size:
  "move_with_directory_symlink mgr w model d = (r, model1, w1) \<Longrightarrow>
   size_bytes model1 = size_bytes model"
  by (auto simp: move_with_directory_symlink_def split: prod.splits sum.splits if_splits)

lemma move_with_file_symlinks_size:
  "move_with_file_symlinks fnmatch mgr w model d = (r, model1, w1) \<Longrightarrow>
   size_bytes model1 = size_bytes model"
  by (auto simp: move_with_file_symlinks_def Let_def
      split: prod.splits sum.splits if_splits dest: move_with_directory_symlink_size)

lemma relocate_guarded_size:
  "relocate_guarded fnmatch mgr w model d = (r, model1, w1) \<Longrightarrow>
   size_bytes model1 = size_bytes model"
  by (auto simp: relocate_guarded_def split: prod.splits sum.splits if_splits
      dest: move_with_directory_symlink_size move_with_file_symlinks_size)

lemma restore_guarded_size:
  "restore_guarded w model src = (r, model1, w1) \<Longrightarrow> size_bytes model1 = size_bytes model"
  by (auto simp: restore_guarded_def Let_def split: prod.splits sum.splits if_splits)

lemma refresh_models:
  "refresh_usb_status mgr w = (r, mgr1, w1) \<Longrightarrow> mgr_models mgr1 = mgr_models mgr"
  by (auto simp: refresh_usb_status_def split: prod.splits sum.splits)

lemma move_model_to_usb_size:
  assumes "move_model_to_usb fnmatch mgr w mname = (Inr b, mgr1, w1)"
  shows "\<exists>m m1. get_model_by_name mgr mname = Some m \<and>
           get_model_by_name mgr1 mname = Some m1 \<and> size_bytes m1 = size_bytes m"
proof -
  obtain r0 mgr0 w0 where r: "refresh_usb_status mgr w = (r0, mgr0, w0)"
    by (cases "refresh_usb_status mgr w")
  from refresh_models [OF r] have g: "get_model_by_name mgr0 mname = get_model_by_name mgr mname"
    by (simp add: get_model_by_name_def)
  from assms r obtain model where m: "get_model_by_name mgr0 mname = Some model"
    by (auto simp: move_model_to_usb_def Let_def split: sum.splits if_splits option.splits)
  from assms r m obtain w2 w3 model1 where
    "relocate_guarded fnmatch mgr0 w2 model (usb_dest_of mgr0 model) = (Inr b, model1, w3)"
    and "mgr1 = update_model mgr0 mname model1"
    by (auto simp: move_model_to_usb_def Let_def
        split: sum.splits if_splits option.splits prod.splits)
  with relocate_guarded_size get_update_model [OF m] m g show ?thesis by fastforce
qed

lemma move_model_from_usb_size:
  assumes "move_model_from_usb mgr w mname = (Inr b, mgr1, w1)"
  shows "\<exists>m m1. get_model_by_name mgr mname = Some m \<and>
           get_model_by_name mgr1 mname = Some m1 \<and> size_bytes m1 = size_bytes m"
proof -
  from assms obtain model where m: "get_model_by_name mgr mname = Some model"
    by (auto simp: move_model_from_usb_def split: option.splits)
  obtain r0 mgr0 w0 where r: "refresh_usb_status mgr w = (r0, mgr0, w0)"
    by (cases "refresh_usb_status mgr w")
  from refresh_models [OF r] m have g: "get_model_by_name mgr0 mname = Some model"
    by (simp add: get_model_by_name_def)
  from assms r m obtain w2 src model1 where
    "restore_guarded w2 model src = (Inr b, model1, w1)"
    and "mgr1 = update_model mgr0 mname model1"
    by (auto simp: move_model_from_usb_def Let_def
        split: sum.splits if_splits option.splits prod.splits)
  with restore_guarded_size get_update_model [OF g] m show ?thesis by fastforce
qed

text \<open>Neither operation writes the field \<open>size_bytes\<close>: after a successful round trip the
  manager holds the number it held before, whatever is on disk.\<close>

lemma round_trip_size_field:
  assumes "move_model_to_usb fnmatch mgr w mname = (Inr b1, mgr1, w1)"
    and "move_model_from_usb mgr1 w1 mname = (Inr b2, mgr2, w2)"
  shows "\<exists>m m2. get_model_by_name mgr mname = Some m \<and>
           get_model_by_name mgr2 mname = Some m2 \<and> size_bytes m2 = size_bytes m"
  using move_model_to_usb_size [OF assms(1)] move_model_from_usb_size [OF assms(2)]
  by auto

text \<open>The round trip of the model of \<open>world_linked\<close>, with the whole-directory strategy.\<close>

lemma linked_to_usb:
  "move_model_to_usb (\<lambda>nm pat. False) mgr_linked world_linked ''lab/a'' =
     (Inr True, mgr_linked1, world_linked1)"
  by (simp add: move_model_to_usb_def refresh_usb_status_def mgr_linked_def mgr_linked1_def
      status_ok_def world_linked1_def
      get_model_by_name_def model_a_def make_publisher_dir_def usb_dest_of_def
      get_usb_space_free_def usb_available_def MIN_FREE_SPACE_BUFFER_def
      estimate_copy_time_def relocate_guarded_def determine_symlink_strategy_def
      get_symlink_strategy_def config0_def
      move_with_directory_symlink_def update_model_def
      probe_eval move_eval tree_eval world_linked_def world0_def fs_eval)

lemma linked_from_usb:
  "move_model_from_usb mgr_linked1 world_linked1 ''lab/a'' =
     (Inr True, mgr_linked2, world_linked2)"
  by (simp add: move_model_from_usb_def refresh_usb_status_def mgr_linked_def mgr_linked1_def
      mgr_linked2_def world_linked2_def status_ok_def world_linked1_def
      get_model_by_name_def model_a_def usb_source_of_def
      MIN_FREE_SPACE_BUFFER_def
      estimate_copy_time_def restore_guarded_def safe_restore_from_usb_def srf_body_def
      srf_recover_def copy_link_def config0_def update_model_def
      probe_eval move_eval tree_eval world0_def fs_eval)

text \<open>
  Claim C6 says that an entry that is successfully relocated and then successfully
  restored reports the size it reported before.  In \<open>world_linked\<close> the model directory
  \<open>/home/lab/a\<close> holds a weight file of ten bytes and a link \<open>extra\<close> to the directory
  \<open>/home/shared\<close>, which holds a file of two bytes.  Relocating it with the whole-directory
  strategy goes through \<open>_monitored_move\<close>, whose \<open>shutil.copytree\<close> follows the link and
  copies the directory behind it; the restore copies that tree back.  Both calls succeed.
  The scan of the entry (\<open>_calculate_size\<close>) reports 10 bytes before the relocation and 12
  after the restore, where \<open>extra\<close> is a directory of its own; the field \<open>size_bytes\<close> of the
  manager still holds 10.
\<close>

theorem round_trip_grows_linked_directory:
  "move_model_to_usb (\<lambda>nm pat. False) mgr_linked world_linked ''lab/a'' =
     (Inr True, mgr_linked1, world_linked1) \<and>
   move_model_from_usb mgr_linked1 world_linked1 ''lab/a'' =
     (Inr True, mgr_linked2, world_linked2) \<and>
   calculate_size (files world_linked) [''home'', ''lab'', ''a''] = 10 \<and>
   calculate_size (files world_linked2) [''home'', ''lab'', ''a''] = 12 \<and>
   map_option size_bytes (get_model_by_name mgr_linked ''lab/a'') = Some 10 \<and>
   map_option size_bytes (get_model_by_name mgr_linked2 ''lab/a'') = Some 10 \<and>
   lstat (files world_linked) [''home'', ''lab'', ''a'', ''extra''] =
     Some (Symlink (Abs [''home'', ''shared''])) \<and>
   lstat (files world_linked2) [''home'', ''lab'', ''a'', ''extra''] = Some Dir"
proof -
  have c: "calculate_size (files world_linked) [''home'', ''lab'', ''a''] = 10"
    by (simp add: calculate_size_def world_linked_def world0_def tree_eval fs_eval)
  have d: "calculate_size (files world_linked2) [''home'', ''lab'', ''a''] = 12"
    by (simp add: calculate_size_def world_linked2_def world0_def tree_eval fs_eval)
  have s: "map_option size_bytes (get_model_by_name mgr_linked ''lab/a'') = Some 10"
    "map_option size_bytes (get_model_by_name mgr_linked2 ''lab/a'') = Some 10"
    by (simp_all add: get_model_by_name_def mgr_linked_def mgr_linked2_def model_a_def)
  have l: "lstat (files world_linked) [''home'', ''lab'', ''a'', ''extra''] =
      Some (Symlink (Abs [''home'', ''shared'']))"
    "lstat (files world_linked2) [''home'', ''lab'', ''a'', ''extra''] = Some Dir"
    by (simp_all add: world_linked_def world_linked2_def world0_def fs_eval)
  from linked_to_usb linked_from_usb c d s l show ?thesis by simp
qed

text \<open>For a model that is a single file the scan agrees before and after: the round trip
  of the model of \<open>world_rt\<close>, of ten bytes.\<close>

lemma rt_to:
  "move_model_to_usb (\<lambda>nm pat. False) mgr_rt world_rt ''lab/m.gguf'' =
     (Inr True, mgr_rt1, world_rt1)"
  by (simp add: move_model_to_usb_def refresh_usb_status_def mgr_rt_def mgr_rt1_def
      status_ok_def world_rt1_def
      get_model_by_name_def model_f_def make_publisher_dir_def usb_dest_of_def
      get_usb_space_free_def usb_available_def MIN_FREE_SPACE_BUFFER_def
      estimate_copy_time_def relocate_guarded_def determine_symlink_strategy_def
      get_symlink_strategy_def config0_def lower_def lower_char_def
      move_with_file_symlinks_def move_with_directory_symlink_def update_model_def
      probe_eval move_eval world_rt_def world0_def fs_eval)

lemma rt_from:
  "move_model_from_usb mgr_rt1 world_rt1 ''lab/m.gguf'' = (Inr True, mgr_rt2, world_rt2)"
  by (simp add: move_model_from_usb_def refresh_usb_status_def mgr_rt_def mgr_rt1_def
      mgr_rt2_def world_rt2_def status_ok_def world_rt1_def
      get_model_by_name_def model_f_def usb_source_of_def
      MIN_FREE_SPACE_BUFFER_def
      estimate_copy_time_def restore_guarded_def safe_restore_from_usb_def srf_body_def
      srf_recover_def copy_link_def config0_def update_model_def
      probe_eval move_eval world0_def fs_eval)

lemma round_trip_single_file:
  "calculate_size (files world_rt) [''home'', ''lab'', ''m.gguf''] = 10 \<and>
   calculate_size (files world_rt2) [''home'', ''lab'', ''m.gguf''] = 10 \<and>
   map_option size_bytes (get_model_by_name mgr_rt2 ''lab/m.gguf'') = Some 10"
proof -
  have a: "map_option size_bytes (get_model_by_name mgr_rt ''lab/m.gguf'') = Some 10"
    by (simp add: get_model_by_name_def mgr_rt_def model_f_def)
  have c: "calculate_size (files world_rt) [''home'', ''lab'', ''m.gguf''] = 10"
    "calculate_size (files world_rt2) [''home'', ''lab'', ''m.gguf''] = 10"
    by (simp_all add: calculate_size_def world_rt_def world_rt2_def fs_eval)
  from round_trip_size_field [OF rt_to rt_from] a c show ?thesis by auto
qed

section \<open>Link health\<close>

text \<open>What the code classifies as broken: a link that resolves from its own directory, but
  whose recorded target, taken as a path of its own, does not exist.\<close>

lemma readlink_symlink:
  "path_is_symlink fs p \<Longrightarrow> \<exists>t. readlink fs p = Inr t"
  by (auto simp: path_is_symlink_def readlink_def split: option.splits node.splits)

lemma check_symlink_health_broken_iff:
  "h_is_broken (check_symlink_health w p) \<longleftrightarrow>
     path_exists (files w) p \<and> path_is_symlink (files w) p \<and>
     (\<exists>t. readlink (files w) p = Inr t \<and> \<not> path_exists (files w) (at_cwd w t))"
proof (cases "path_exists (files w) p \<and> path_is_symlink (files w) p")
  case False
  then show ?thesis by (auto simp: check_symlink_health_def Let_def)
next
  case True
  then obtain t where t: "readlink (files w) p = Inr t"
    using readlink_symlink by blast
  show ?thesis
  proof (cases "path_exists (files w) (at_cwd w t)")
    case False
    with True t show ?thesis by (simp add: check_symlink_health_def Let_def)
  next
    case te: True
    obtain a b where sz: "path_is_file (files w) p \<longrightarrow> st_size (files w) p = Inr a"
      "path_is_file (files w) (at_cwd w t) \<longrightarrow> st_size (files w) (at_cwd w t) = Inr b"
      using st_size_file by blast
    with True t te show ?thesis by (simp add: check_symlink_health_def Let_def)
  qed
qed

text \<open>
  Claim C7 says that a link whose recorded target does not exist is classified broken.
  \<open>check_symlink_health\<close> returns early when \<open>symlink_path.exists()\<close> is false, and
  \<open>exists()\<close> follows the link: in \<open>world_dangling\<close> the path \<open>/home/m\<close> is a link to
  \<open>/mnt/usb/m\<close>, which does not exist, and the result has neither \<open>is_broken\<close> nor
  \<open>is_symlink\<close>.
\<close>

theorem check_symlink_health_dangling:
  "path_is_symlink (files world_dangling) [''home'', ''m''] \<and>
   readlink (files world_dangling) [''home'', ''m''] = Inr (Abs [''mnt'', ''usb'', ''m'']) \<and>
   \<not> path_exists (files world_dangling) [''mnt'', ''usb'', ''m''] \<and>
   check_symlink_health world_dangling [''home'', ''m''] =
     \<lparr>h_is_symlink = False, h_exists = False, h_target_exists = False, h_target_path = None,
      h_is_broken = False, h_size_match = False\<rparr>"
  by (simp add: check_symlink_health_def world_dangling_def path_exists_def stat_def
      realpath_def node_at_def Let_def path_is_symlink_def lstat_def lpath_def readlink_def)

section \<open>Mount verification returns a status\<close>






















section \<open>Repairing broken links\<close>















end
